theory Spec2Isabelle
  imports Complex_Main
begin

section \<open>JavaScript values\<close>

text \<open>
  A JavaScript number is modelled by a real: the properties below are about which
  number is stored, sent or summed, never about rounding. An instant is the
  millisecond count of \<^verbatim>\<open>Date.now()\<close>; \<^verbatim>\<open>lastUpdate\<close> is kept by the source as
  the ISO string of such an instant and read back with \<^verbatim>\<open>new Date(s).getTime()\<close>,
  which returns the same millisecond count, so it is modelled by the instant itself.
  A field that can hold \<^verbatim>\<open>null\<close> is an option.
\<close>

type_synonym num = real

text \<open>\<^verbatim>\<open>now - null\<close>: the operand \<^verbatim>\<open>null\<close> converts to 0.\<close>

definition to_number :: "num option \<Rightarrow> num" where
  "to_number v = (case v of None \<Rightarrow> 0 | Some x \<Rightarrow> x)"

text \<open>
  \<^verbatim>\<open>x || 0\<close> for a number or a missing value \<^verbatim>\<open>x\<close>: a missing value and the
  falsy number 0 both give 0, every other number gives itself.
\<close>

definition or_zero :: "num option \<Rightarrow> num" where
  "or_zero v = (case v of None \<Rightarrow> 0 | Some x \<Rightarrow> (if x = 0 then 0 else x))"

text \<open>\<^verbatim>\<open>String.prototype.toLowerCase\<close> on ASCII text (addresses are ASCII).\<close>

definition toLowerCase_char :: "char \<Rightarrow> char" where
  "toLowerCase_char c =
     (let n = (of_char c :: nat) in if 65 \<le> n \<and> n \<le> 90 then char_of (n + 32) else c)"

definition toLowerCase :: "string \<Rightarrow> string" where
  "toLowerCase s = map toLowerCase_char s"

text \<open>
  \<^verbatim>\<open>path.join(dir, name)\<close> for a directory without a trailing separator and a
  name without separators or dots-only segments, where joining is all it does.
\<close>

definition path_join :: "string \<Rightarrow> string \<Rightarrow> string" where
  "path_join dir name = dir @ ''/'' @ name"

section \<open>Remote service, events and errors\<close>

datatype error = RequestError string | TypeError | NotRegistered

record payload =
  p_wallet :: string
  p_session :: num
  p_type :: string

datatype request = CheckRegistration string | UpdateBalance payload

record userData =
  ud_balance :: "num option"
  ud_referralBonus :: "num option"

record reg_response =
  isRegistered :: bool
  userData :: "userData option"

record update_response =
  success :: bool
  balance :: num

record earnings =
  total :: num

text \<open>
  The parsed session document. \<^verbatim>\<open>startTime\<close> is \<^verbatim>\<open>null\<close> when it was saved
  by an agent that never started. \<^verbatim>\<open>earnings\<close> is the one field the source
  dereferences (\<^verbatim>\<open>this.currentEarnings.total\<close>), so a document without it is
  modelled: \<^verbatim>\<open>loadSession\<close> accepts it. The numeric fields are numbers, as
  \<^verbatim>\<open>saveSession\<close> writes them.
\<close>

record session =
  s_startTime :: "num option"
  s_earnings :: "earnings option"
  s_referralBonus :: num

text \<open>
  A file of the session directory: \<open>Garbage\<close> is a content on which
  \<^verbatim>\<open>JSON.parse\<close> or the first field read raises (not JSON, or \<^verbatim>\<open>null\<close>).
\<close>

datatype file_content = Garbage | Doc session

type_synonym fs = "string \<rightharpoonup> file_content"

text \<open>The observable effects, in the order the source performs them.\<close>

datatype event = Invoke request | Sleep nat | WriteFile string session

section \<open>Retry policy\<close>

text \<open>
  \<^verbatim>\<open>retryRequest(requestFn, operationName, retries = 3)\<close>; both callers leave
  \<^verbatim>\<open>retries\<close> at 3, and the base delay is the literal 2000. The request function
  is given by the request it sends and the outcome \<open>f i\<close> of its \<open>i\<close>-th invocation
  (from 0) within this call. The result is \<open>Inl e\<close> when the error \<open>e\<close> is thrown,
  \<open>Inr (Some v)\<close> when \<open>v\<close> is returned and \<open>Inr None\<close> when the loop ends without
  an attempt and the function returns \<^verbatim>\<open>undefined\<close>.
\<close>

function retryRequest_loop ::
  "request \<Rightarrow> (nat \<Rightarrow> error + 'a) \<Rightarrow> nat \<Rightarrow> nat \<Rightarrow> (error + 'a option) \<times> event list" where
  "retryRequest_loop rq f retries i =
     (if i < retries then
        (case f i of
           Inr v \<Rightarrow> (Inr (Some v), [Invoke rq])
         | Inl e \<Rightarrow>
             if i = retries - 1 then (Inl e, [Invoke rq])
             else (let (r, tr) = retryRequest_loop rq f retries (i + 1)
                   in (r, Invoke rq # Sleep (2000 * (i + 1)) # tr)))
      else (Inr None, []))"
  by pat_completeness auto
termination
  by (relation "measure (\<lambda>(rq, f, retries, i). retries - i)") auto

definition retryRequest ::
  "request \<Rightarrow> (nat \<Rightarrow> error + 'a) \<Rightarrow> nat \<Rightarrow> (error + 'a option) \<times> event list" where
  "retryRequest rq f retries = retryRequest_loop rq f retries 0"

text \<open>The trace of \<open>k\<close> failed attempts, each followed by its backoff delay.\<close>

definition backoff_trace :: "request \<Rightarrow> nat \<Rightarrow> event list" where
  "backoff_trace rq k = concat (map (\<lambda>i. [Invoke rq, Sleep (2000 * (i + 1))]) [0..<k])"

section \<open>The mining agent\<close>

text \<open>The constants of \<^verbatim>\<open>MINING_CONFIG\<close> the agent reads.\<close>

definition UPDATE_INTERVAL :: nat where
  "UPDATE_INTERVAL = 30000"

definition DEFAULT_HASHRATE :: num where
  "DEFAULT_HASHRATE = 75.5"

definition DEFAULT_EFFICIENCY :: num where
  "DEFAULT_EFFICIENCY = 1.4"

definition DEFAULT_POWER_USAGE :: num where
  "DEFAULT_POWER_USAGE = 120"

definition EARNINGS_RATE :: num where
  "EARNINGS_RATE = 0.0001"

record mining_state =
  isActive :: bool
  worker :: string
  pool :: string
  startTime :: "num option"
  lastUpdate :: "num option"

record bot_stats =
  hashrate :: num
  shares_accepted :: nat
  shares_rejected :: nat
  efficiency :: num
  powerUsage :: num

text \<open>
  The fields of a \<^verbatim>\<open>KaleidoMiningBot\<close>. The request client \<^verbatim>\<open>api\<close> is the
  remote service itself: its answers are arguments of the operations below.
\<close>

record bot =
  wallet :: string
  botIndex :: nat
  proxy :: "string option"
  currentEarnings :: "earnings option"
  miningState :: mining_state
  referralBonus :: num
  stats :: bot_stats
  sessionDir :: string
  sessionFile :: string

text \<open>
  The constructor; \<open>rootDir\<close> is what \<^verbatim>\<open>getRootDir()\<close> returns. The session file is
  named from the constructor's argument, the wallet field from its lowercase form.
\<close>

definition KaleidoMiningBot :: "string \<Rightarrow> string \<Rightarrow> nat \<Rightarrow> string option \<Rightarrow> bot" where
  "KaleidoMiningBot rootDir wallet_arg index proxy_arg =
     \<lparr> wallet = toLowerCase wallet_arg,
       botIndex = index,
       proxy = proxy_arg,
       currentEarnings = Some \<lparr> total = 0 \<rparr>,
       miningState = \<lparr> isActive = False, worker = ''quantum-rig-1'', pool = ''quantum-1'',
                       startTime = None, lastUpdate = None \<rparr>,
       referralBonus = 0,
       stats = \<lparr> hashrate = DEFAULT_HASHRATE, shares_accepted = 0, shares_rejected = 0,
                 efficiency = DEFAULT_EFFICIENCY, powerUsage = DEFAULT_POWER_USAGE \<rparr>,
       sessionDir = path_join rootDir ''session'',
       sessionFile = path_join (path_join rootDir ''session'') (wallet_arg @ ''.json'') \<rparr>"

text \<open>
  \<^verbatim>\<open>loadSession\<close>: a missing file and a content that does not parse both end in
  the \<^verbatim>\<open>catch\<close>, before any field is assigned.
\<close>

definition loadSession :: "fs \<Rightarrow> bot \<Rightarrow> bool \<times> bot" where
  "loadSession files b =
     (case files (sessionFile b) of
        None \<Rightarrow> (False, b)
      | Some Garbage \<Rightarrow> (False, b)
      | Some (Doc s) \<Rightarrow>
          (True, b\<lparr> miningState := (miningState b)\<lparr> startTime := s_startTime s \<rparr>,
                    currentEarnings := s_earnings s,
                    referralBonus := s_referralBonus s \<rparr>))"

text \<open>
  \<^verbatim>\<open>saveSession\<close>; \<open>ok\<close> tells whether \<^verbatim>\<open>fs.writeFile\<close> succeeds. A failed write
  is caught and leaves the file as it was.
\<close>

definition saveSession :: "bool \<Rightarrow> fs \<Rightarrow> bot \<Rightarrow> fs \<times> event list" where
  "saveSession ok files b =
     (let sessionData = \<lparr> s_startTime = startTime (miningState b),
                           s_earnings = currentEarnings b,
                           s_referralBonus = referralBonus b \<rparr>
      in ((if ok then files(sessionFile b \<mapsto> Doc sessionData) else files),
          [WriteFile (sessionFile b) sessionData]))"

text \<open>\<^verbatim>\<open>calculateSessionEarnings\<close>; \<open>now\<close> is what \<^verbatim>\<open>Date.now()\<close> returns.\<close>

definition calculateSessionEarnings :: "num \<Rightarrow> bot \<Rightarrow> num \<times> bot" where
  "calculateSessionEarnings now b =
     (let timeElapsed =
            (now - (case lastUpdate (miningState b) of
                      Some t \<Rightarrow> t
                    | None \<Rightarrow> to_number (startTime (miningState b)))) / 1000;
          earned = (hashrate (stats b) * timeElapsed * EARNINGS_RATE) * (1 + referralBonus b)
      in (earned, b\<lparr> miningState := (miningState b)\<lparr> lastUpdate := Some now \<rparr> \<rparr>))"

text \<open>
  \<^verbatim>\<open>updateBalance\<close>; \<open>post i\<close> is the outcome of the \<open>i\<close>-th \<^verbatim>\<open>POST /update-balance\<close>
  of this call. Every error is caught inside, so the call always returns: the agent,
  the files and the trace. The errors are the one \<^verbatim>\<open>retryRequest\<close> throws and the
  \<^verbatim>\<open>TypeError\<close> of reading \<^verbatim>\<open>response.data\<close> without a response or of assigning
  \<^verbatim>\<open>this.currentEarnings.total\<close> without an earnings object. The \<^verbatim>\<open>finalUpdate\<close>
  flag only changes the heading that \<^verbatim>\<open>logStatus\<close> prints and is left out.
\<close>

definition updateBalance ::
  "num \<Rightarrow> (nat \<Rightarrow> error + update_response) \<Rightarrow> bool \<Rightarrow> fs \<Rightarrow> bot \<Rightarrow> bot \<times> fs \<times> event list" where
  "updateBalance now post ok files b =
     (let (sessionEarnings, b1) = calculateSessionEarnings now b;
          request_payload = \<lparr> p_wallet = wallet b1, p_session = sessionEarnings,
                              p_type = ''mining_update'' \<rparr>;
          (res, tr) = retryRequest (UpdateBalance request_payload) post 3
      in case res of
           Inl e \<Rightarrow> (b1, files, tr)
         | Inr None \<Rightarrow> (b1, files, tr)
         | Inr (Some response) \<Rightarrow>
             if success response then
               (case currentEarnings b1 of
                  None \<Rightarrow> (b1, files, tr)
                | Some e \<Rightarrow>
                    (let b2 = b1\<lparr> currentEarnings := Some (e\<lparr> total := balance response \<rparr>) \<rparr>;
                         (files', tr') = saveSession ok files b2
                     in (b2, files', tr @ tr')))
             else (b1, files, tr))"

text \<open>
  \<^verbatim>\<open>startMiningLoop\<close>. One element of the schedule is one iteration: the instant of
  its update, the service's answers and whether the write succeeds. The flag
  \<^verbatim>\<open>isActive\<close> is tested before each iteration; an exhausted schedule is a loop
  still waiting for its next iteration. \<^verbatim>\<open>updateBalance\<close> raises nothing, so the
  \<^verbatim>\<open>catch\<close> of the loop with its 5 second wait is never entered.
\<close>

type_synonym cycle = "num \<times> (nat \<Rightarrow> error + update_response) \<times> bool"

fun startMiningLoop :: "cycle list \<Rightarrow> fs \<Rightarrow> bot \<Rightarrow> bot \<times> fs \<times> event list" where
  "startMiningLoop [] files b = (b, files, [])"
| "startMiningLoop ((now, post, ok) # cs) files b =
     (if isActive (miningState b) then
        (let (b1, files1, tr1) = updateBalance now post ok files b;
             (b2, files2, tr2) = startMiningLoop cs files1 b1
         in (b2, files2, tr1 @ [Sleep UPDATE_INTERVAL] @ tr2))
      else (b, files, []))"

text \<open>
  \<^verbatim>\<open>initialize\<close> up to the call of the loop (steps 1 to 3): \<open>Inl e\<close> is the error
  that reaches the \<^verbatim>\<open>catch\<close>, \<open>Inr b'\<close> the agent as it enters the loop.
  \<open>get i\<close> is the outcome of the \<open>i\<close>-th \<^verbatim>\<open>GET /check-registration\<close>, \<open>now\<close> what
  \<^verbatim>\<open>Date.now()\<close> returns and \<open>now'\<close> the instant of \<^verbatim>\<open>new Date()\<close>.
\<close>

definition initialize_session ::
  "num \<Rightarrow> num \<Rightarrow> (nat \<Rightarrow> error + reg_response) \<Rightarrow> fs \<Rightarrow> bot \<Rightarrow> (error + bot) \<times> event list" where
  "initialize_session now now' get files b =
     (let (res, tr) = retryRequest (CheckRegistration (wallet b)) get 3
      in case res of
           Inl e \<Rightarrow> (Inl e, tr)
         | Inr None \<Rightarrow> (Inl TypeError, tr)
         | Inr (Some regResponse) \<Rightarrow>
             if \<not> isRegistered regResponse then (Inl NotRegistered, tr)
             else
               (let (hasSession, b1) = loadSession files b;
                    b2 = (if \<not> hasSession then
                            b1\<lparr> referralBonus :=
                                   or_zero (case userData regResponse of
                                              None \<Rightarrow> None | Some u \<Rightarrow> ud_referralBonus u),
                                 currentEarnings :=
                                   Some \<lparr> total =
                                     or_zero (case userData regResponse of
                                                None \<Rightarrow> None | Some u \<Rightarrow> ud_balance u) \<rparr>,
                                 miningState := (miningState b1)\<lparr> startTime := Some now \<rparr> \<rparr>
                          else b1);
                    b3 = b2\<lparr> miningState := (miningState b2)\<lparr> isActive := True,
                                                                lastUpdate := Some now' \<rparr> \<rparr>
                in (Inr b3, tr)))"

text \<open>
  \<^verbatim>\<open>initialize\<close>: on an error the agent is left inactive (the Failed state),
  otherwise it runs the loop.
\<close>

definition initialize ::
  "num \<Rightarrow> num \<Rightarrow> (nat \<Rightarrow> error + reg_response) \<Rightarrow> cycle list \<Rightarrow> fs \<Rightarrow> bot
     \<Rightarrow> bot \<times> fs \<times> event list" where
  "initialize now now' get cs files b =
     (case initialize_session now now' get files b of
        (Inl e, tr) \<Rightarrow> (b\<lparr> miningState := (miningState b)\<lparr> isActive := False \<rparr> \<rparr>, files, tr)
      | (Inr b', tr) \<Rightarrow>
          (let (b2, files2, tr2) = startMiningLoop cs files b' in (b2, files2, tr @ tr2)))"

text \<open>
  The outcome of an \<^verbatim>\<open>async\<close> function: its promise is fulfilled with a value or
  rejected with the error raised inside.
\<close>

datatype 'a promise = Fulfilled 'a | Rejected error

text \<open>
  \<^verbatim>\<open>stop\<close>; \<open>ok\<close> is for the write inside the final update, \<open>ok'\<close> for the write
  that follows it. \<^verbatim>\<open>return this.currentEarnings.total\<close> raises when the agent
  has no earnings object, in the \<^verbatim>\<open>try\<close> and again in the \<^verbatim>\<open>catch\<close>. The call
  is one step of the model: an update of the loop that is under way when \<^verbatim>\<open>stop\<close>
  is called is not interleaved with it.
\<close>

definition stop ::
  "num \<Rightarrow> (nat \<Rightarrow> error + update_response) \<Rightarrow> bool \<Rightarrow> bool \<Rightarrow> fs \<Rightarrow> bot
     \<Rightarrow> num promise \<times> bot \<times> fs \<times> event list" where
  "stop now post ok ok' files b =
     (let b0 = b\<lparr> miningState := (miningState b)\<lparr> isActive := False \<rparr> \<rparr>;
          (b1, files1, tr1) = updateBalance now post ok files b0;
          (files2, tr2) = saveSession ok' files1 b1
      in ((case currentEarnings b1 of
             None \<Rightarrow> Rejected TypeError
           | Some e \<Rightarrow> Fulfilled (total e)),
          b1, files2, tr1 @ tr2))"

section \<open>The credential loader\<close>

text \<open>
  The text of a file is its UTF-8 byte sequence. These are the encodings of the
  characters that \<^verbatim>\<open>String.prototype.trim\<close> removes, the white space and line
  terminators of ECMAScript: U+0009 to U+000D, U+0020, U+00A0, U+1680, U+2000 to
  U+200A, U+2028, U+2029, U+202F, U+205F, U+3000 and U+FEFF.
\<close>

definition white_space :: "string list" where
  "white_space =
     [[CHR 0x09], [CHR 0x0A], [CHR 0x0B], [CHR 0x0C], [CHR 0x0D], [CHR 0x20],
      [CHR 0xC2, CHR 0xA0],
      [CHR 0xE1, CHR 0x9A, CHR 0x80],
      [CHR 0xE2, CHR 0x80, CHR 0x80], [CHR 0xE2, CHR 0x80, CHR 0x81],
      [CHR 0xE2, CHR 0x80, CHR 0x82], [CHR 0xE2, CHR 0x80, CHR 0x83],
      [CHR 0xE2, CHR 0x80, CHR 0x84], [CHR 0xE2, CHR 0x80, CHR 0x85],
      [CHR 0xE2, CHR 0x80, CHR 0x86], [CHR 0xE2, CHR 0x80, CHR 0x87],
      [CHR 0xE2, CHR 0x80, CHR 0x88], [CHR 0xE2, CHR 0x80, CHR 0x89],
      [CHR 0xE2, CHR 0x80, CHR 0x8A],
      [CHR 0xE2, CHR 0x80, CHR 0xA8], [CHR 0xE2, CHR 0x80, CHR 0xA9],
      [CHR 0xE2, CHR 0x80, CHR 0xAF],
      [CHR 0xE2, CHR 0x81, CHR 0x9F],
      [CHR 0xE3, CHR 0x80, CHR 0x80],
      [CHR 0xEF, CHR 0xBB, CHR 0xBF]]"

text \<open>Removing them from the start of a text, one character after the other.\<close>

function trimStart :: "string \<Rightarrow> string" where
  "trimStart s =
     (case find (\<lambda>w. take (length w) s = w) white_space of
        None \<Rightarrow> s
      | Some w \<Rightarrow> trimStart (drop (length w) s))"
  by pat_completeness auto
termination
proof (relation "measure length")
  show "wf (measure length)" by simp
next
  fix s w :: string
  assume "find (\<lambda>w. take (length w) s = w) white_space = Some w"
  then have "w \<in> set white_space" and t: "take (length w) s = w"
    by (auto simp: find_Some_iff)
  then have "w \<noteq> []"
    by (auto simp: white_space_def)
  with t have "s \<noteq> []" by auto
  with \<open>w \<noteq> []\<close> show "(drop (length w) s, s) \<in> measure length"
    by simp
qed

text \<open>Removing them from the end.\<close>

function trimEnd :: "string \<Rightarrow> string" where
  "trimEnd s =
     (case find (\<lambda>w. length w \<le> length s \<and> drop (length s - length w) s = w) white_space of
        None \<Rightarrow> s
      | Some w \<Rightarrow> trimEnd (take (length s - length w) s))"
  by pat_completeness auto
termination
proof (relation "measure length")
  show "wf (measure length)" by simp
next
  fix s w :: string
  assume "find (\<lambda>w. length w \<le> length s \<and> drop (length s - length w) s = w) white_space
            = Some w"
  then have "w \<in> set white_space" and t: "length w \<le> length s"
    by (auto simp: find_Some_iff)
  then have "w \<noteq> []"
    by (auto simp: white_space_def)
  with t have "length s - length w < length s"
    by (cases w) auto
  with t show "(take (length s - length w) s, s) \<in> measure length"
    by simp
qed

definition trim :: "string \<Rightarrow> string" where
  "trim s = trimEnd (trimStart s)"

text \<open>\<^verbatim>\<open>data.split('\n')\<close>: the empty text gives one empty line.\<close>

fun split_lines :: "string \<Rightarrow> string list" where
  "split_lines [] = [[]]"
| "split_lines (c # cs) =
     (if c = CHR 0x0A then [] # split_lines cs
      else (case split_lines cs of
              [] \<Rightarrow> [[c]]
            | l # ls \<Rightarrow> (c # l) # ls))"

text \<open>The lines that are kept: trimmed, not empty and not starting with \<^verbatim>\<open>#\<close>.\<close>

definition parse_lines :: "string \<Rightarrow> string list" where
  "parse_lines data =
     filter (\<lambda>line. line \<noteq> [] \<and> take 1 line \<noteq> ''#'') (map trim (split_lines data))"

record entry =
  privateKey :: string
  item_proxy :: "string option"

text \<open>The callback of \<^verbatim>\<open>privateKeys.map\<close>, at one index.\<close>

definition assign_proxy :: "string list \<Rightarrow> nat \<times> string \<Rightarrow> entry" where
  "assign_proxy proxies = (\<lambda>(index, pk).
     \<lparr> privateKey = pk,
       item_proxy = (if length proxies > 0 then Some (proxies ! (index mod length proxies))
                     else None) \<rparr>)"

text \<open>
  \<^verbatim>\<open>loadPrivateKeysAndProxies\<close>; each argument is the text of a file, \<open>None\<close> when
  reading it fails. Without the key file the result is the empty list; without the
  proxy file the proxy text is empty.
\<close>

definition loadPrivateKeysAndProxies :: "string option \<Rightarrow> string option \<Rightarrow> entry list" where
  "loadPrivateKeysAndProxies pkFile proxyFile =
     (case pkFile of
        None \<Rightarrow> []
      | Some pkData \<Rightarrow>
          (let proxyData = (case proxyFile of None \<Rightarrow> [] | Some d \<Rightarrow> d);
               privateKeys = parse_lines pkData;
               proxies = (if proxyData \<noteq> [] then parse_lines proxyData else [])
           in map (assign_proxy proxies) (enumerate 0 privateKeys)))"

section \<open>The coordinator\<close>

text \<open>
  \<^verbatim>\<open>getWalletFromPrivateKey\<close>; \<open>address_of\<close> is the address that
  \<^verbatim>\<open>new ethers.Wallet(key).address\<close> returns, \<open>None\<close> when it raises.
\<close>

definition getWalletFromPrivateKey :: "(string \<Rightarrow> string option) \<Rightarrow> string \<Rightarrow> string option" where
  "getWalletFromPrivateKey address_of pk =
     (let formattedKey = (if take 2 pk = ''0x'' then pk else ''0x'' @ pk)
      in address_of formattedKey)"

record coordinator =
  bots :: "bot list"
  totalPaid :: num
  isRunning :: bool
  isShuttingDown :: bool

text \<open>
  The loop of \<^verbatim>\<open>start\<close> over the loaded entries, from index \<open>i\<close>: an entry with
  no address is skipped, every other one gives an agent that is pushed on the list
  before its \<^verbatim>\<open>initialize\<close> is called, and \<^verbatim>\<open>start\<close> does not wait for it.
\<close>

fun start_bots :: "(string \<Rightarrow> string option) \<Rightarrow> string \<Rightarrow> nat \<Rightarrow> entry list \<Rightarrow> bot list" where
  "start_bots address_of rootDir i [] = []"
| "start_bots address_of rootDir i (item # items) =
     (case getWalletFromPrivateKey address_of (privateKey item) of
        None \<Rightarrow> start_bots address_of rootDir (i + 1) items
      | Some w \<Rightarrow>
          KaleidoMiningBot rootDir w (i + 1) (item_proxy item)
            # start_bots address_of rootDir (i + 1) items)"

datatype start_result = AlreadyRunning | ExitNoKeys | Started

definition start ::
  "(string \<Rightarrow> string option) \<Rightarrow> string \<Rightarrow> string option \<Rightarrow> string option \<Rightarrow> coordinator
     \<Rightarrow> coordinator \<times> start_result" where
  "start address_of rootDir pkFile proxyFile c =
     (if isRunning c then (c, AlreadyRunning)
      else
        (let c1 = c\<lparr> isRunning := True \<rparr>;
             pkAndProxies = loadPrivateKeysAndProxies pkFile proxyFile
         in if length pkAndProxies = 0 then (c1, ExitNoKeys)
            else (c1\<lparr> bots := start_bots address_of rootDir 0 pkAndProxies \<rparr>, Started)))"

text \<open>
  What one \<^verbatim>\<open>initialize\<close> call meets: the two instants, the service's answers
  and the schedule of its loop.
\<close>

type_synonym init_env = "num \<times> num \<times> (nat \<Rightarrow> error + reg_response) \<times> cycle list"

text \<open>
  The \<^verbatim>\<open>bot.initialize()\<close> calls that the loop of \<^verbatim>\<open>start\<close> makes, for the
  agents of the list from position \<open>i\<close>. The agent on the list is the object its
  call changes, so afterwards the list holds every agent as its call left it, at
  its position: no call takes an agent off the list. \<^verbatim>\<open>start\<close> does not wait for
  the calls; here each is run to the end of its schedule, in list order.
\<close>

fun initialize_all ::
  "(nat \<Rightarrow> init_env) \<Rightarrow> nat \<Rightarrow> fs \<Rightarrow> bot list \<Rightarrow> bot list \<times> fs \<times> event list" where
  "initialize_all ienv i files [] = ([], files, [])"
| "initialize_all ienv i files (b # bs) =
     (case ienv i of (now, now', get, cs) \<Rightarrow>
        (let (b', files1, tr1) = initialize now now' get cs files b;
             (bs', files2, tr2) = initialize_all ienv (i + 1) files1 bs
         in (b' # bs', files2, tr1 @ tr2)))"

text \<open>
  What one \<^verbatim>\<open>stop\<close> call meets: the instant, the service's answers and the
  outcomes of its two writes.
\<close>

type_synonym stop_env = "num \<times> (nat \<Rightarrow> error + update_response) \<times> bool \<times> bool"

text \<open>
  \<^verbatim>\<open>this.bots.map(bot => { try { return bot.stop(); } catch (err) { return 0; } })\<close>
  from the agent at position \<open>i\<close>. Calling an \<^verbatim>\<open>async\<close> function returns its
  promise and raises nothing, so the \<^verbatim>\<open>catch\<close> is never entered and the promise
  is what the callback returns, rejected or not. The source starts every \<^verbatim>\<open>stop\<close>
  before any of them goes on, so the requests and writes of different agents
  interleave as the service answers. The agents own different files and each
  promise depends on its own agent only, so the model runs the stop sequences one
  after the other: its trace is the interleaving in which they do not overlap, and
  the promises, agents and files are those of every interleaving.
\<close>

fun stop_all ::
  "(nat \<Rightarrow> stop_env) \<Rightarrow> nat \<Rightarrow> fs \<Rightarrow> bot list
     \<Rightarrow> num promise list \<times> bot list \<times> fs \<times> event list" where
  "stop_all env i files [] = ([], [], files, [])"
| "stop_all env i files (b # bs) =
     (case env i of (now, post, ok, ok') \<Rightarrow>
        (let (p, b', files1, tr1) = stop now post ok ok' files b;
             (ps, bs', files2, tr2) = stop_all env (i + 1) files1 bs
         in (p # ps, b' # bs', files2, tr1 @ tr2)))"

text \<open>
  \<^verbatim>\<open>Promise.all\<close>: the list of the values, or a rejection when one is rejected.
  The source leaves at the first rejection, while other stop sequences may still be
  under way; the model has run them all by then.
\<close>

fun promise_all :: "'a promise list \<Rightarrow> 'a list promise" where
  "promise_all [] = Fulfilled []"
| "promise_all (Rejected e # ps) = Rejected e"
| "promise_all (Fulfilled v # ps) =
     (case promise_all ps of
        Fulfilled vs \<Rightarrow> Fulfilled (v # vs)
      | Rejected e \<Rightarrow> Rejected e)"

text \<open>
  How the handler of the termination signal ends: it returns because a shutdown is
  already in progress, it prints the summary (wallet count and total) and exits with
  status 0, or it exits with status 1 from its outer \<^verbatim>\<open>catch\<close>. The 30 second
  timer is real time and is not modelled.
\<close>

datatype handler_result = ShutdownInProgress | Exit0 nat num | Exit1

definition shutdownHandler ::
  "(nat \<Rightarrow> stop_env) \<Rightarrow> fs \<Rightarrow> coordinator
     \<Rightarrow> coordinator \<times> fs \<times> event list \<times> handler_result" where
  "shutdownHandler env files c =
     (if isShuttingDown c then (c, files, [], ShutdownInProgress)
      else
        (let c1 = c\<lparr> isShuttingDown := True \<rparr>;
             (ps, bs', files', tr) = stop_all env 0 files (bots c1);
             c2 = c1\<lparr> bots := bs' \<rparr>
         in case promise_all ps of
              Rejected e \<Rightarrow> (c2, files', tr, Exit1)
            | Fulfilled paidValues \<Rightarrow>
                (let c3 = c2\<lparr> totalPaid := foldl (\<lambda>sum paid. sum + paid) 0 paidValues \<rparr>
                 in (c3, files', tr, Exit0 (length (bots c3)) (totalPaid c3)))))"

section \<open>Notions used to state the properties\<close>

text \<open>The first \<open>n\<close> invocations of a request all raise.\<close>

definition exhausts :: "(nat \<Rightarrow> error + 'a) \<Rightarrow> nat \<Rightarrow> bool" where
  "exhausts f n = list_all (\<lambda>i. isl (f i)) [0..<n]"

text \<open>Within \<open>n\<close> invocations the request is answered, and \<open>v\<close> is the first answer.\<close>

definition answers :: "(nat \<Rightarrow> error + 'a) \<Rightarrow> nat \<Rightarrow> 'a \<Rightarrow> bool" where
  "answers f n v = list_ex (\<lambda>j. exhausts f j \<and> f j = Inr v) [0..<n]"

text \<open>How often a trace invokes the request function, and the delays it waits.\<close>

fun invocations :: "event list \<Rightarrow> nat" where
  "invocations [] = 0"
| "invocations (Invoke rq # tr) = Suc (invocations tr)"
| "invocations (ev # tr) = invocations tr"

fun delays :: "event list \<Rightarrow> nat list" where
  "delays [] = []"
| "delays (Sleep d # tr) = d # delays tr"
| "delays (ev # tr) = delays tr"

fun writes :: "event list \<Rightarrow> (string \<times> session) list" where
  "writes [] = []"
| "writes (WriteFile path doc # tr) = (path, doc) # writes tr"
| "writes (ev # tr) = writes tr"

text \<open>Service behaviours used in the examples: an immediate answer, and no answer.\<close>

definition answer_at_once :: "'a \<Rightarrow> nat \<Rightarrow> error + 'a" where
  "answer_at_once v i = Inr v"

definition unreachable :: "nat \<Rightarrow> error + 'a" where
  "unreachable i = Inl (RequestError ''timeout'')"

definition answer_on_second :: "'a \<Rightarrow> nat \<Rightarrow> error + 'a" where
  "answer_on_second v i = (if i = 1 then Inr v else Inl (RequestError ''timeout''))"

text \<open>
  An agent that resumed a stored session with a total of 5, and two successful
  updates of it in a row, the service answering 5.2 and then 3.
\<close>

definition resumed_bot :: bot where
  "resumed_bot =
     (KaleidoMiningBot ''/app'' ''0x7E5F4552091A69125d5DfCb7b8C2659029395Bdf'' 1 None)
       \<lparr> currentEarnings := Some \<lparr> total = 5 \<rparr>,
         miningState := \<lparr> isActive = True, worker = ''quantum-rig-1'', pool = ''quantum-1'',
                          startTime = Some 1000, lastUpdate = Some 2000 \<rparr> \<rparr>"



text \<open>
  A newly constructed agent, a registration answer that reports a balance of 9 and a
  bonus of 0.1, and a session directory that holds a record of this agent with a total
  of 5.
\<close>

definition fresh_bot :: bot where
  "fresh_bot = KaleidoMiningBot ''/app'' ''0x7E5F4552091A69125d5DfCb7b8C2659029395Bdf'' 1 None"

definition registered :: reg_response where
  "registered = \<lparr> isRegistered = True,
                   userData = Some \<lparr> ud_balance = Some 9, ud_referralBonus = Some 0.1 \<rparr> \<rparr>"

definition stored_session :: session where
  "stored_session = \<lparr> s_startTime = Some 1000, s_earnings = Some \<lparr> total = 5 \<rparr>,
                       s_referralBonus = 0.05 \<rparr>"

definition stored_files :: fs where
  "stored_files =
     [''/app/session/0x7E5F4552091A69125d5DfCb7b8C2659029395Bdf.json'' \<mapsto> Doc stored_session]"

text \<open>
  A key file that starts with a byte-order mark and has a comment, padding (blanks,
  a carriage return, a no-break space) and an empty line around three keys, and a
  proxy file of two proxies.
\<close>

definition example_keys :: string where
  "example_keys = [CHR 0xEF, CHR 0xBB, CHR 0xBF] @ ''# keys'' @ [CHR 0x0A] @ ''k1'' @ [CHR 0x0A]
                    @ '' k2 '' @ [CHR 0x0D, CHR 0x0A] @ [CHR 0x0A]
                    @ [CHR 0xC2, CHR 0xA0] @ ''k3'' @ [CHR 0x0A]"

definition example_proxies :: string where
  "example_proxies = ''http://p1:80'' @ [CHR 0x0A] @ ''http://p2:80'' @ [CHR 0x0A]"

text \<open>The constructor of the coordinator.\<close>

definition MiningCoordinator :: coordinator where
  "MiningCoordinator = \<lparr> bots = [], totalPaid = 0, isRunning = False, isShuttingDown = False \<rparr>"

text \<open>
  A run with one secret whose wallet the service does not know: the coordinator as
  \<^verbatim>\<open>start\<close> leaves it, the agent after its \<^verbatim>\<open>initialize\<close> has failed (the Failed
  state), and a shutdown in which the service answers the final update with a
  balance of 7.
\<close>

definition example_address_of :: "string \<Rightarrow> string option" where
  "example_address_of k =
     (if k = ''0x0000000000000000000000000000000000000000000000000000000000000001''
      then Some ''0x7E5F4552091A69125d5DfCb7b8C2659029395Bdf''
      else if k = ''0x0000000000000000000000000000000000000000000000000000000000000002''
      then Some ''0x2B5AD5c4795c026514f8317c7a215E218DcCD6cF''
      else None)"

definition started :: coordinator where
  "started =
     fst (start example_address_of ''/app''
            (Some ''0000000000000000000000000000000000000000000000000000000000000001'')
            None MiningCoordinator)"

definition unregistered :: reg_response where
  "unregistered = \<lparr> isRegistered = False, userData = None \<rparr>"

definition failed_bot :: bot where
  "failed_bot = fst (initialize 7000 7001 (answer_at_once unregistered) [] Map.empty fresh_bot)"

definition answering_env :: "nat \<Rightarrow> stop_env" where
  "answering_env i = (90000, answer_at_once \<lparr> success = True, balance = 7 \<rparr>, True, True)"

text \<open>
  A second agent, whose session file is a JSON document without the \<^verbatim>\<open>earnings\<close>
  field: \<^verbatim>\<open>loadSession\<close> accepts it, and the agent runs without an earnings
  object. At the shutdown of the example the service cannot be reached.
\<close>

definition second_bot :: bot where
  "second_bot = KaleidoMiningBot ''/app'' ''0x2B5AD5c4795c026514f8317c7a215E218DcCD6cF'' 2 None"

definition broken_files :: fs where
  "broken_files =
     [''/app/session/0x2B5AD5c4795c026514f8317c7a215E218DcCD6cF.json'' \<mapsto>
        Doc \<lparr> s_startTime = Some 1000, s_earnings = None, s_referralBonus = 0 \<rparr>]"

definition broken_bot :: bot where
  "broken_bot = fst (initialize 7000 7001 (answer_at_once registered) [] broken_files second_bot)"

definition silent_env :: "nat \<Rightarrow> stop_env" where
  "silent_env i = (90000, unreachable, True, True)"

text \<open>
  A run with two secrets. The service knows the wallet of the first and not the
  wallet of the second; at shutdown it answers the final update of the first agent
  with a balance of 5.2 and that of the second with 7.
\<close>

definition two_keys :: string where
  "two_keys = ''0000000000000000000000000000000000000000000000000000000000000001''
                @ [CHR 0x0A]
                @ ''0000000000000000000000000000000000000000000000000000000000000002''"

definition started_two :: coordinator where
  "started_two = fst (start example_address_of ''/app'' (Some two_keys) None MiningCoordinator)"

definition second_unregistered :: "nat \<Rightarrow> init_env" where
  "second_unregistered i =
     (7000, 7001, answer_at_once (if i = 1 then unregistered else registered), [])"

definition initialized_two :: "bot list" where
  "initialized_two = fst (initialize_all second_unregistered 0 Map.empty (bots started_two))"

definition two_env :: "nat \<Rightarrow> stop_env" where
  "two_env i =
     (90000, answer_at_once \<lparr> success = True, balance = (if i = 1 then 7 else 5.2) \<rparr>,
      True, True)"

section \<open>The retry policy: proofs\<close>

declare retryRequest_loop.simps [simp del]

lemma exhausts_iff: "exhausts f n \<longleftrightarrow> (\<forall>i<n. isl (f i))"
  by (auto simp: exhausts_def list_all_iff)

lemma answers_iff: "answers f n v \<longleftrightarrow> (\<exists>j<n. exhausts f j \<and> f j = Inr v)"
  by (auto simp: answers_def list_ex_iff)

lemma retry_loop_all_fail:
  "i < N \<Longrightarrow> (\<forall>k. i \<le> k \<and> k < N \<longrightarrow> isl (f k)) \<Longrightarrow>
   retryRequest_loop rq f N i =
     (Inl (projl (f (N - 1))),
      concat (map (\<lambda>k. [Invoke rq, Sleep (2000 * (k + 1))]) [i..<N - 1]) @ [Invoke rq])"
proof (induction rq f N i rule: retryRequest_loop.induct)
  case (1 rq f retries i)
  from "1.prems" obtain e where fi: "f i = Inl e" by (cases "f i") auto
  show ?case
  proof (cases "i = retries - 1")
    case True
    then show ?thesis using fi "1.prems" by (subst retryRequest_loop.simps) simp
  next
    case False
    with "1.prems" have lt: "i + 1 < retries" by simp
    have ih: "retryRequest_loop rq f retries (i + 1) =
      (Inl (projl (f (retries - 1))),
       concat (map (\<lambda>k. [Invoke rq, Sleep (2000 * (k + 1))]) [i + 1..<retries - 1]) @ [Invoke rq])"
      using "1.IH"[OF _ fi False lt] "1.prems" by simp
    have up: "[i..<retries - 1] = i # [i + 1..<retries - 1]"
      using lt by (simp add: upt_conv_Cons)
    show ?thesis
      using fi False "1.prems"(1) ih up by (subst retryRequest_loop.simps) simp
  qed
qed

lemma retry_loop_first_success:
  "i \<le> j \<Longrightarrow> j < N \<Longrightarrow> f j = Inr v \<Longrightarrow> (\<forall>k. i \<le> k \<and> k < j \<longrightarrow> isl (f k)) \<Longrightarrow>
   retryRequest_loop rq f N i =
     (Inr (Some v),
      concat (map (\<lambda>k. [Invoke rq, Sleep (2000 * (k + 1))]) [i..<j]) @ [Invoke rq])"
proof (induction rq f N i rule: retryRequest_loop.induct)
  case (1 rq f retries i)
  show ?case
  proof (cases "i = j")
    case True
    then show ?thesis using "1.prems" by (subst retryRequest_loop.simps) simp
  next
    case False
    with "1.prems" have lt: "i < j" by simp
    with "1.prems" obtain e where fi: "f i = Inl e" by (cases "f i") auto
    from lt "1.prems" have ne: "i \<noteq> retries - 1" by simp
    have ih: "retryRequest_loop rq f retries (i + 1) =
      (Inr (Some v),
       concat (map (\<lambda>k. [Invoke rq, Sleep (2000 * (k + 1))]) [i + 1..<j]) @ [Invoke rq])"
      using "1.IH"[OF _ fi ne] "1.prems" lt by simp
    have up: "[i..<j] = i # [i + 1..<j]"
      using lt by (simp add: upt_conv_Cons)
    show ?thesis
      using fi ne "1.prems"(2) lt ih up by (subst retryRequest_loop.simps) simp
  qed
qed

lemma retryRequest_exhausted:
  assumes "0 < N" and "exhausts f N"
  shows "retryRequest rq f N = (Inl (projl (f (N - 1))), backoff_trace rq (N - 1) @ [Invoke rq])"
  using assms retry_loop_all_fail[of 0 N f rq]
  by (simp add: retryRequest_def backoff_trace_def exhausts_iff)

lemma retryRequest_answered:
  assumes "j < N" and "exhausts f j" and "f j = Inr v"
  shows "retryRequest rq f N = (Inr (Some v), backoff_trace rq j @ [Invoke rq])"
  using assms retry_loop_first_success[of 0 j N f v rq]
  by (simp add: retryRequest_def backoff_trace_def exhausts_iff)

lemma invocations_append: "invocations (xs @ ys) = invocations xs + invocations ys"
  by (induction xs rule: invocations.induct) auto

lemma delays_append: "delays (xs @ ys) = delays xs @ delays ys"
  by (induction xs rule: delays.induct) auto

lemma writes_append: "writes (xs @ ys) = writes xs @ writes ys"
  by (induction xs rule: writes.induct) auto

lemma backoff_trace_Suc:
  "backoff_trace rq (Suc k) = backoff_trace rq k @ [Invoke rq, Sleep (2000 * (k + 1))]"
  by (simp add: backoff_trace_def)

lemma invocations_backoff: "invocations (backoff_trace rq k) = k"
  by (induction k) (simp_all add: backoff_trace_Suc invocations_append, simp add: backoff_trace_def)

lemma delays_backoff: "delays (backoff_trace rq k) = map (\<lambda>i. 2000 * i) [1..<Suc k]"
  by (induction k) (simp_all add: backoff_trace_Suc delays_append, simp add: backoff_trace_def)

lemma writes_backoff: "writes (backoff_trace rq k) = []"
  by (induction k) (simp_all add: backoff_trace_Suc writes_append, simp add: backoff_trace_def)

text \<open>
  Claim C6. A request run by \<^verbatim>\<open>retryRequest\<close> with a budget of \<open>N\<close> attempts:
  when every attempt raises, the request function is invoked exactly \<open>N\<close> times, the
  error of the \<open>N\<close>-th attempt is the one thrown to the caller, and the wait after
  the \<open>k\<close>-th failed attempt (counted from 1) is \<open>k\<close> times 2000 ms; when attempt
  \<open>j\<close> (counted from 0) is the first that answers, its answer is returned after
  exactly \<open>j + 1\<close> invocations and nothing is invoked after it.
\<close>

theorem retryRequest_policy:
  "(0 < N \<and> exhausts f N \<longrightarrow>
      (\<exists>e. f (N - 1) = Inl e \<and>
           retryRequest rq f N = (Inl e, backoff_trace rq (N - 1) @ [Invoke rq])) \<and>
      invocations (snd (retryRequest rq f N)) = N \<and>
      delays (snd (retryRequest rq f N)) = map (\<lambda>k. 2000 * k) [1..<N]) \<and>
   (j < N \<and> exhausts f j \<and> f j = Inr v \<longrightarrow>
      retryRequest rq f N = (Inr (Some v), backoff_trace rq j @ [Invoke rq]) \<and>
      invocations (snd (retryRequest rq f N)) = j + 1 \<and>
      delays (snd (retryRequest rq f N)) = map (\<lambda>k. 2000 * k) [1..<j + 1])"
proof (intro conjI impI)
  assume a: "0 < N \<and> exhausts f N"
  then have r: "retryRequest rq f N =
      (Inl (projl (f (N - 1))), backoff_trace rq (N - 1) @ [Invoke rq])"
    by (simp add: retryRequest_exhausted)
  from a have "isl (f (N - 1))" by (simp add: exhausts_iff)
  then obtain e where e: "f (N - 1) = Inl e" by (cases "f (N - 1)") auto
  with r show "\<exists>e. f (N - 1) = Inl e \<and>
      retryRequest rq f N = (Inl e, backoff_trace rq (N - 1) @ [Invoke rq])" by simp
  from a show "invocations (snd (retryRequest rq f N)) = N"
    by (simp add: r invocations_append invocations_backoff)
  from a show "delays (snd (retryRequest rq f N)) = map (\<lambda>k. 2000 * k) [1..<N]"
    by (simp add: r delays_append delays_backoff)
next
  assume a: "j < N \<and> exhausts f j \<and> f j = Inr v"
  then show r: "retryRequest rq f N = (Inr (Some v), backoff_trace rq j @ [Invoke rq])"
    by (simp add: retryRequest_answered)
  show "invocations (snd (retryRequest rq f N)) = j + 1"
    by (simp add: r invocations_append invocations_backoff)
  show "delays (snd (retryRequest rq f N)) = map (\<lambda>k. 2000 * k) [1..<j + 1]"
    by (simp add: r delays_append delays_backoff)
qed

theorem retryRequest_policy_witness:
  "retryRequest (CheckRegistration ''0xab'') (unreachable :: nat \<Rightarrow> error + reg_response) 3
     = (Inl (RequestError ''timeout''),
        [Invoke (CheckRegistration ''0xab''), Sleep 2000,
         Invoke (CheckRegistration ''0xab''), Sleep 4000,
         Invoke (CheckRegistration ''0xab'')]) \<and>
   retryRequest (CheckRegistration ''0xab'')
       (answer_on_second \<lparr> isRegistered = True, userData = None \<rparr>) 3
     = (Inr (Some \<lparr> isRegistered = True, userData = None \<rparr>),
        [Invoke (CheckRegistration ''0xab''), Sleep 2000,
         Invoke (CheckRegistration ''0xab'')])"
  using retryRequest_policy [of 3 "unreachable :: nat \<Rightarrow> error + reg_response" "CheckRegistration ''0xab''" 0 undefined]
    retryRequest_policy [of 3 "answer_on_second \<lparr> isRegistered = True, userData = None \<rparr>"
       "CheckRegistration ''0xab''" 1 "\<lparr> isRegistered = True, userData = None \<rparr>"]
  by (simp add: exhausts_def unreachable_def answer_on_second_def backoff_trace_def
        upt_rec)

section \<open>Balance updates: proofs\<close>

lemma retry_loop_starts_with_invoke:
  "i < N \<Longrightarrow> \<exists>r tl. retryRequest_loop rq f N i = (r, Invoke rq # tl)"
  by (subst retryRequest_loop.simps) (auto split: sum.splits prod.splits)

lemma retryRequest_starts_with_invoke:
  "0 < N \<Longrightarrow> \<exists>r tl. retryRequest rq f N = (r, Invoke rq # tl)"
  by (simp add: retryRequest_def retry_loop_starts_with_invoke)

lemma writes_retryRequest: "writes (snd (retryRequest_loop rq f N i)) = []"
proof (induction rq f N i rule: retryRequest_loop.induct)
  case (1 rq f retries i)
  show ?case
  proof (cases "i < retries")
    case False
    then show ?thesis by (subst retryRequest_loop.simps) simp
  next
    case lt: True
    show ?thesis
    proof (cases "f i")
      case (Inr v)
      with lt show ?thesis by (subst retryRequest_loop.simps) simp
    next
      case (Inl e)
      show ?thesis
      proof (cases "i = retries - 1")
        case True
        with lt Inl show ?thesis by (subst retryRequest_loop.simps) simp
      next
        case False
        with lt Inl "1.IH"[OF lt Inl False] show ?thesis
          by (subst retryRequest_loop.simps) (auto split: prod.splits)
      qed
    qed
  qed
qed

lemma updateBalance_lastUpdate:
  "lastUpdate (miningState (fst (updateBalance now post ok files b))) = Some now"
  by (simp add: updateBalance_def calculateSessionEarnings_def saveSession_def Let_def
        split: prod.splits sum.splits option.splits)

lemma updateBalance_first_event:
  "\<exists>tl. snd (snd (updateBalance now post ok files b)) =
     Invoke (UpdateBalance \<lparr> p_wallet = wallet b,
                             p_session = fst (calculateSessionEarnings now b),
                             p_type = ''mining_update'' \<rparr>) # tl"
proof -
  let ?rq = "UpdateBalance \<lparr> p_wallet = wallet b,
                             p_session = fst (calculateSessionEarnings now b),
                             p_type = ''mining_update'' \<rparr>"
  obtain r tl where "retryRequest ?rq post 3 = (r, Invoke ?rq # tl)"
    using retryRequest_starts_with_invoke[of 3 ?rq post] by auto
  then show ?thesis
    by (simp add: updateBalance_def calculateSessionEarnings_def saveSession_def Let_def
          split: prod.splits sum.splits option.splits)
qed

lemma updateBalance_failed:
  assumes "exhausts post 3 \<or> (\<exists>r. answers post 3 r \<and> \<not> success r)"
  shows "\<exists>tr. updateBalance now post ok files b =
           (snd (calculateSessionEarnings now b), files, tr) \<and> writes tr = []"
proof -
  let ?rq = "UpdateBalance \<lparr> p_wallet = wallet b,
                             p_session = fst (calculateSessionEarnings now b),
                             p_type = ''mining_update'' \<rparr>"
  have w: "writes (snd (retryRequest ?rq post 3)) = []"
    by (simp add: retryRequest_def writes_retryRequest)
  from assms show ?thesis
  proof
    assume "exhausts post 3"
    then have "retryRequest ?rq post 3 =
        (Inl (projl (post (3 - 1))), backoff_trace ?rq (3 - 1) @ [Invoke ?rq])"
      by (intro retryRequest_exhausted) simp_all
    with w show ?thesis
      by (simp add: updateBalance_def calculateSessionEarnings_def Let_def)
  next
    assume "\<exists>r. answers post 3 r \<and> \<not> success r"
    then obtain r j where j: "j < 3" "exhausts post j" "post j = Inr r" and r: "\<not> success r"
      by (auto simp: answers_iff)
    from j have "retryRequest ?rq post 3 = (Inr (Some r), backoff_trace ?rq j @ [Invoke ?rq])"
      by (intro retryRequest_answered)
    with w r show ?thesis
      by (simp add: updateBalance_def calculateSessionEarnings_def Let_def)
  qed
qed

lemma earnings_total_update: "(e :: earnings)\<lparr> total := x \<rparr> = \<lparr> total = x \<rparr>"
  by (cases e) simp

lemma updateBalance_succeeded:
  assumes "answers post 3 r" and "success r" and "currentEarnings b = Some e"
  shows "\<exists>tr. updateBalance now post ok files b =
           ((snd (calculateSessionEarnings now b))\<lparr> currentEarnings := Some \<lparr> total = balance r \<rparr> \<rparr>,
            (if ok then files(sessionFile b \<mapsto>
                         Doc \<lparr> s_startTime = startTime (miningState b),
                               s_earnings = Some \<lparr> total = balance r \<rparr>,
                               s_referralBonus = referralBonus b \<rparr>)
             else files),
            tr @ [WriteFile (sessionFile b)
                    \<lparr> s_startTime = startTime (miningState b),
                      s_earnings = Some \<lparr> total = balance r \<rparr>,
                      s_referralBonus = referralBonus b \<rparr>]) \<and> writes tr = []"
proof -
  let ?rq = "UpdateBalance \<lparr> p_wallet = wallet b,
                             p_session = fst (calculateSessionEarnings now b),
                             p_type = ''mining_update'' \<rparr>"
  have w: "writes (snd (retryRequest ?rq post 3)) = []"
    by (simp add: retryRequest_def writes_retryRequest)
  from assms(1) obtain j where j: "j < 3" "exhausts post j" "post j = Inr r"
    by (auto simp: answers_iff)
  then have rr: "retryRequest ?rq post 3 = (Inr (Some r), backoff_trace ?rq j @ [Invoke ?rq])"
    by (intro retryRequest_answered)
  with w have w': "writes (backoff_trace ?rq j @ [Invoke ?rq]) = []"
    by simp
  have "updateBalance now post ok files b =
           ((snd (calculateSessionEarnings now b))\<lparr> currentEarnings := Some \<lparr> total = balance r \<rparr> \<rparr>,
            (if ok then files(sessionFile b \<mapsto>
                         Doc \<lparr> s_startTime = startTime (miningState b),
                               s_earnings = Some \<lparr> total = balance r \<rparr>,
                               s_referralBonus = referralBonus b \<rparr>)
             else files),
            (backoff_trace ?rq j @ [Invoke ?rq]) @ [WriteFile (sessionFile b)
                    \<lparr> s_startTime = startTime (miningState b),
                      s_earnings = Some \<lparr> total = balance r \<rparr>,
                      s_referralBonus = referralBonus b \<rparr>])"
    using rr assms(2,3)
    by (simp add: updateBalance_def calculateSessionEarnings_def saveSession_def Let_def
          earnings_total_update)
  with w' show ?thesis by blast
qed

lemma toLowerCase_example:
  "toLowerCase ''0x7E5F4552091A69125d5DfCb7b8C2659029395Bdf'' =
     ''0x7e5f4552091a69125d5dfcb7b8c2659029395bdf''"
  by code_simp

lemma resumed_bot_simps:
  "currentEarnings resumed_bot = Some \<lparr> total = 5 \<rparr>"
  "sessionFile resumed_bot = ''/app/session/0x7E5F4552091A69125d5DfCb7b8C2659029395Bdf.json''"
  "wallet resumed_bot = ''0x7e5f4552091a69125d5dfcb7b8c2659029395bdf''"
  "miningState resumed_bot = \<lparr> isActive = True, worker = ''quantum-rig-1'', pool = ''quantum-1'',
                          startTime = Some 1000, lastUpdate = Some 2000 \<rparr>"
  "referralBonus resumed_bot = 0"
  "hashrate (stats resumed_bot) = 75.5"
  by (simp_all add: resumed_bot_def KaleidoMiningBot_def path_join_def toLowerCase_example
        DEFAULT_HASHRATE_def)

lemma answers_at_once: "answers (answer_at_once v) 3 v"
  by (simp add: answers_def exhausts_def answer_at_once_def upt_rec)

lemma exhausts_unreachable: "exhausts unreachable 3"
  by (simp add: exhausts_def unreachable_def upt_rec)

lemma retryRequest_answer_at_once:
  "retryRequest rq (answer_at_once v) 3 = (Inr (Some v), [Invoke rq])"
  using retryRequest_answered[of 0 3 "answer_at_once v" v rq]
  by (simp add: exhausts_def answer_at_once_def backoff_trace_def)

lemma retryRequest_unreachable:
  "retryRequest rq unreachable 3 =
     (Inl (RequestError ''timeout''), [Invoke rq, Sleep 2000, Invoke rq, Sleep 4000, Invoke rq])"
  using retryRequest_exhausted[of 3 unreachable rq]
  by (simp add: exhausts_unreachable backoff_trace_def unreachable_def upt_rec)


lemma broken_bot_simps:
  "currentEarnings broken_bot = None"
  "isActive (miningState broken_bot)"
  by (simp_all add: broken_bot_def initialize_def initialize_session_def
        retryRequest_answer_at_once registered_def loadSession_def broken_files_def
        second_bot_def KaleidoMiningBot_def path_join_def Let_def)







text \<open>
  Claim C7. When a balance update fails (all three attempts raise, or the first
  answer has \<^verbatim>\<open>success = false\<close>), the call writes nothing and leaves the files,
  the agent's earnings and its \<^verbatim>\<open>isActive\<close> flag as they were; the loop of an
  active agent then waits the update interval and goes on with its next iteration,
  on the same files.
\<close>

theorem failed_update_skips_persistence:
  assumes "exhausts post 3 \<or> (\<exists>r. answers post 3 r \<and> \<not> success r)"
  shows "fst (snd (updateBalance now post ok files b)) = files \<and>
         writes (snd (snd (updateBalance now post ok files b))) = [] \<and>
         currentEarnings (fst (updateBalance now post ok files b)) = currentEarnings b \<and>
         isActive (miningState (fst (updateBalance now post ok files b)))
           = isActive (miningState b) \<and>
         (isActive (miningState b) \<longrightarrow>
            startMiningLoop ((now, post, ok) # cs) files b =
              (case startMiningLoop cs files (fst (updateBalance now post ok files b)) of
                 (b2, files2, tr2) \<Rightarrow>
                   (b2, files2,
                    snd (snd (updateBalance now post ok files b))
                      @ [Sleep UPDATE_INTERVAL] @ tr2)))"
proof -
  from updateBalance_failed[OF assms, of now ok files b]
  obtain tr where u: "updateBalance now post ok files b =
      (snd (calculateSessionEarnings now b), files, tr)" and w: "writes tr = []"
    by blast
  show ?thesis
    by (simp add: u w calculateSessionEarnings_def Let_def)
qed

theorem failed_update_skips_persistence_witness:
  "fst (snd (updateBalance 32000 unreachable True Map.empty resumed_bot)) = Map.empty \<and>
   currentEarnings (fst (updateBalance 32000 unreachable True Map.empty resumed_bot))
     = Some \<lparr> total = 5 \<rparr> \<and>
   isActive (miningState (fst (updateBalance 32000 unreachable True Map.empty resumed_bot))) \<and>
   fst (snd (startMiningLoop [(32000, unreachable, True)] Map.empty resumed_bot)) = Map.empty"
  using failed_update_skips_persistence [of unreachable 32000 True Map.empty resumed_bot "[]"]
  by (simp add: exhausts_unreachable resumed_bot_simps split: prod.splits)

text \<open>
  Claim C10. In every balance update \<^verbatim>\<open>calculateSessionEarnings\<close> runs first and
  leaves \<^verbatim>\<open>lastUpdate\<close> at the current instant; the delta it returns is what the
  first request of the update submits. When the update fails, the agent is left
  exactly as \<^verbatim>\<open>calculateSessionEarnings\<close> left it: \<^verbatim>\<open>lastUpdate\<close> keeps the new
  instant while the earnings and the files are unchanged. So the next update, at
  \<open>now'\<close>, submits the delta of the time since the failed update only: the earnings
  of the failed window are not computed or submitted again.
\<close>

theorem failed_update_advances_lastUpdate:
  "lastUpdate (miningState (snd (calculateSessionEarnings now b))) = Some now \<and>
   lastUpdate (miningState (fst (updateBalance now post ok files b))) = Some now \<and>
   (\<exists>tl. snd (snd (updateBalance now post ok files b)) =
      Invoke (UpdateBalance \<lparr> p_wallet = wallet b,
                              p_session = fst (calculateSessionEarnings now b),
                              p_type = ''mining_update'' \<rparr>) # tl) \<and>
   (exhausts post 3 \<or> (\<exists>r. answers post 3 r \<and> \<not> success r) \<longrightarrow>
      fst (updateBalance now post ok files b) = snd (calculateSessionEarnings now b) \<and>
      currentEarnings (fst (updateBalance now post ok files b)) = currentEarnings b \<and>
      fst (snd (updateBalance now post ok files b)) = files \<and>
      (\<exists>tl. snd (snd (updateBalance now' post' ok' files
                        (fst (updateBalance now post ok files b)))) =
         Invoke (UpdateBalance
                   \<lparr> p_wallet = wallet b,
                     p_session = (hashrate (stats b) * ((now' - now) / 1000) * EARNINGS_RATE)
                                   * (1 + referralBonus b),
                     p_type = ''mining_update'' \<rparr>) # tl))"
proof (intro conjI impI)
  show "lastUpdate (miningState (snd (calculateSessionEarnings now b))) = Some now"
    by (simp add: calculateSessionEarnings_def Let_def)
  show "lastUpdate (miningState (fst (updateBalance now post ok files b))) = Some now"
    by (rule updateBalance_lastUpdate)
  show "\<exists>tl. snd (snd (updateBalance now post ok files b)) =
      Invoke (UpdateBalance \<lparr> p_wallet = wallet b,
                              p_session = fst (calculateSessionEarnings now b),
                              p_type = ''mining_update'' \<rparr>) # tl"
    by (rule updateBalance_first_event)
next
  assume a: "exhausts post 3 \<or> (\<exists>r. answers post 3 r \<and> \<not> success r)"
  from updateBalance_failed[OF a, of now ok files b]
  obtain tr where u: "updateBalance now post ok files b =
      (snd (calculateSessionEarnings now b), files, tr)"
    by blast
  show "fst (updateBalance now post ok files b) = snd (calculateSessionEarnings now b)"
    by (simp add: u)
  show "currentEarnings (fst (updateBalance now post ok files b)) = currentEarnings b"
    by (simp add: u calculateSessionEarnings_def Let_def)
  show "fst (snd (updateBalance now post ok files b)) = files"
    by (simp add: u)
  from updateBalance_first_event[of now' post' ok' files "snd (calculateSessionEarnings now b)"]
  show "\<exists>tl. snd (snd (updateBalance now' post' ok' files
                        (fst (updateBalance now post ok files b)))) =
         Invoke (UpdateBalance
                   \<lparr> p_wallet = wallet b,
                     p_session = (hashrate (stats b) * ((now' - now) / 1000) * EARNINGS_RATE)
                                   * (1 + referralBonus b),
                     p_type = ''mining_update'' \<rparr>) # tl"
    by (simp add: u calculateSessionEarnings_def Let_def)
qed

theorem failed_update_advances_lastUpdate_witness:
  "lastUpdate (miningState (fst (updateBalance 32000 unreachable True Map.empty resumed_bot)))
     = Some 32000 \<and>
   currentEarnings (fst (updateBalance 32000 unreachable True Map.empty resumed_bot))
     = Some \<lparr> total = 5 \<rparr> \<and>
   hd (snd (snd (updateBalance 62000 unreachable True Map.empty
                   (fst (updateBalance 32000 unreachable True Map.empty resumed_bot))))) =
     Invoke (UpdateBalance \<lparr> p_wallet = ''0x7e5f4552091a69125d5dfcb7b8c2659029395bdf'',
                             p_session = 0.2265, p_type = ''mining_update'' \<rparr>)"
  using failed_update_advances_lastUpdate
          [where now = 32000 and post = unreachable and ok = True and files = Map.empty
             and b = resumed_bot and now' = 62000 and post' = unreachable and ok' = True]
  by (auto simp: exhausts_unreachable resumed_bot_simps EARNINGS_RATE_def)

section \<open>Start-up reconciliation\<close>

lemma or_zero_eq: "or_zero v = (case v of None \<Rightarrow> 0 | Some x \<Rightarrow> x)"
  by (simp add: or_zero_def split: option.splits)

lemma fresh_bot_simps:
  "currentEarnings fresh_bot = Some \<lparr> total = 0 \<rparr>"
  "sessionFile fresh_bot = ''/app/session/0x7E5F4552091A69125d5DfCb7b8C2659029395Bdf.json''"
  "wallet fresh_bot = ''0x7e5f4552091a69125d5dfcb7b8c2659029395bdf''"
  "miningState fresh_bot = \<lparr> isActive = False, worker = ''quantum-rig-1'', pool = ''quantum-1'',
                          startTime = None, lastUpdate = None \<rparr>"
  "referralBonus fresh_bot = 0"
  "hashrate (stats fresh_bot) = 75.5"
  by (simp_all add: fresh_bot_def KaleidoMiningBot_def path_join_def toLowerCase_example
        DEFAULT_HASHRATE_def)

text \<open>
  Claim C1. When the registration check succeeds (the service answers within the
  three attempts and the answer says the wallet is registered), \<^verbatim>\<open>initialize\<close>
  reaches its loop with an active agent. If the session directory holds a record of
  this agent, its \<^verbatim>\<open>startTime\<close>, earnings and \<^verbatim>\<open>referralBonus\<close> are those of the
  record, whatever the answer reported; otherwise the total is the balance of the
  answer (0 when absent), the bonus is the bonus of the answer (0 when absent) and
  \<^verbatim>\<open>startTime\<close> is the current instant.
\<close>

theorem reconciliation_trusts_stored_session:
  assumes "answers get 3 resp" and "isRegistered resp"
  shows "\<exists>b' tr. initialize_session now now' get files b = (Inr b', tr) \<and>
           isActive (miningState b') \<and>
           (case files (sessionFile b) of
              Some (Doc s) \<Rightarrow>
                startTime (miningState b') = s_startTime s \<and>
                currentEarnings b' = s_earnings s \<and>
                referralBonus b' = s_referralBonus s
            | _ \<Rightarrow>
                currentEarnings b' =
                  Some \<lparr> total = (case userData resp of
                                     None \<Rightarrow> 0
                                   | Some u \<Rightarrow> (case ud_balance u of None \<Rightarrow> 0 | Some x \<Rightarrow> x)) \<rparr> \<and>
                referralBonus b' =
                  (case userData resp of
                     None \<Rightarrow> 0
                   | Some u \<Rightarrow> (case ud_referralBonus u of None \<Rightarrow> 0 | Some x \<Rightarrow> x)) \<and>
                startTime (miningState b') = Some now)"
proof -
  from assms(1) obtain j where j: "j < 3" "exhausts get j" "get j = Inr resp"
    by (auto simp: answers_iff)
  then have rr: "retryRequest (CheckRegistration (wallet b)) get 3 =
      (Inr (Some resp), backoff_trace (CheckRegistration (wallet b)) j
                          @ [Invoke (CheckRegistration (wallet b))])"
    by (intro retryRequest_answered)
  show ?thesis
    using assms(2)
    by (simp add: initialize_session_def rr loadSession_def or_zero_eq Let_def
          split: option.splits file_content.splits)
qed

theorem reconciliation_trusts_stored_session_witness:
  "currentEarnings (projr (fst (initialize_session 7000 7001 (answer_at_once registered)
                                  stored_files fresh_bot))) = Some \<lparr> total = 5 \<rparr> \<and>
   referralBonus (projr (fst (initialize_session 7000 7001 (answer_at_once registered)
                                  stored_files fresh_bot))) = 0.05 \<and>
   startTime (miningState (projr (fst (initialize_session 7000 7001 (answer_at_once registered)
                                  stored_files fresh_bot)))) = Some 1000 \<and>
   currentEarnings (projr (fst (initialize_session 7000 7001 (answer_at_once registered)
                                  Map.empty fresh_bot))) = Some \<lparr> total = 9 \<rparr> \<and>
   referralBonus (projr (fst (initialize_session 7000 7001 (answer_at_once registered)
                                  Map.empty fresh_bot))) = 0.1 \<and>
   startTime (miningState (projr (fst (initialize_session 7000 7001 (answer_at_once registered)
                                  Map.empty fresh_bot)))) = Some 7000"
  using reconciliation_trusts_stored_session
          [of "answer_at_once registered" registered 7000 7001 stored_files fresh_bot]
        reconciliation_trusts_stored_session
          [of "answer_at_once registered" registered 7000 7001 Map.empty fresh_bot]
  by (auto simp: answers_at_once fresh_bot_simps registered_def stored_files_def
        stored_session_def)

section \<open>The credential loader: proofs\<close>

lemma parse_lines_empty: "parse_lines [] = []"
  by code_simp

lemma example_keys_parsed: "parse_lines example_keys = [''k1'', ''k2'', ''k3'']"
  by code_simp

lemma example_proxies_parsed: "parse_lines example_proxies = [''http://p1:80'', ''http://p2:80'']"
  by code_simp

text \<open>
  Claim C8. Let \<open>ks\<close> be the secrets loaded from a readable key file and \<open>ps\<close> the
  proxies loaded from the proxy file (none when the file is absent). The loader
  returns one entry per secret, in order. When there is at least one proxy, the
  entry at index \<open>i\<close> has the proxy at index \<open>i mod length ps\<close>; when there is none,
  every entry has no proxy, and the entries are returned all the same.
\<close>

theorem round_robin_proxies:
  assumes "ks = parse_lines pkData"
      and "ps = (case proxyFile of None \<Rightarrow> [] | Some d \<Rightarrow> parse_lines d)"
      and "es = loadPrivateKeysAndProxies (Some pkData) proxyFile"
  shows "length es = length ks \<and>
         (\<forall>i<length ks. privateKey (es ! i) = ks ! i) \<and>
         (0 < length ps \<longrightarrow>
            (\<forall>i<length ks. item_proxy (es ! i) = Some (ps ! (i mod length ps)))) \<and>
         (length ps = 0 \<longrightarrow> (\<forall>i<length ks. item_proxy (es ! i) = None))"
proof -
  have ps: "(let proxyData = (case proxyFile of None \<Rightarrow> [] | Some d \<Rightarrow> d)
             in if proxyData \<noteq> [] then parse_lines proxyData else []) = ps"
    using assms(2) by (simp add: parse_lines_empty split: option.splits)
  have es: "es = map (assign_proxy ps) (enumerate 0 ks)"
    using assms(1,3) ps by (simp add: loadPrivateKeysAndProxies_def Let_def)
  show ?thesis
    by (simp add: es assign_proxy_def nth_enumerate_eq)
qed

theorem round_robin_proxies_witness:
  "length (loadPrivateKeysAndProxies (Some example_keys) (Some example_proxies)) = 3 \<and>
   item_proxy (loadPrivateKeysAndProxies (Some example_keys) (Some example_proxies) ! 0)
     = Some ''http://p1:80'' \<and>
   item_proxy (loadPrivateKeysAndProxies (Some example_keys) (Some example_proxies) ! 1)
     = Some ''http://p2:80'' \<and>
   item_proxy (loadPrivateKeysAndProxies (Some example_keys) (Some example_proxies) ! 2)
     = Some ''http://p1:80'' \<and>
   privateKey (loadPrivateKeysAndProxies (Some example_keys) (Some example_proxies) ! 2)
     = ''k3'' \<and>
   length (loadPrivateKeysAndProxies (Some example_keys) None) = 3 \<and>
   item_proxy (loadPrivateKeysAndProxies (Some example_keys) None ! 0) = None \<and>
   item_proxy (loadPrivateKeysAndProxies (Some example_keys) None ! 2) = None"
proof -
  let ?ks = "parse_lines example_keys"
  let ?ps = "parse_lines example_proxies"
  let ?es = "loadPrivateKeysAndProxies (Some example_keys) (Some example_proxies)"
  let ?en = "loadPrivateKeysAndProxies (Some example_keys) None"
  have k: "0 < length ?ks" "1 < length ?ks" "2 < length ?ks" "length ?ks = 3"
    by (simp_all add: example_keys_parsed)
  have p: "0 < length ?ps" by (simp add: example_proxies_parsed)
  have a: "length ?es = length ?ks \<and>
         (\<forall>i<length ?ks. privateKey (?es ! i) = ?ks ! i) \<and>
         (0 < length ?ps \<longrightarrow>
            (\<forall>i<length ?ks. item_proxy (?es ! i) = Some (?ps ! (i mod length ?ps)))) \<and>
         (length ?ps = 0 \<longrightarrow> (\<forall>i<length ?ks. item_proxy (?es ! i) = None))"
    by (rule round_robin_proxies) simp_all
  have b: "length ?en = length ?ks \<and>
         (\<forall>i<length ?ks. privateKey (?en ! i) = ?ks ! i) \<and>
         (0 < length ([] :: string list) \<longrightarrow>
            (\<forall>i<length ?ks. item_proxy (?en ! i) = Some ([] ! (i mod length ([] :: string list))))) \<and>
         (length ([] :: string list) = 0 \<longrightarrow> (\<forall>i<length ?ks. item_proxy (?en ! i) = None))"
    by (rule round_robin_proxies) simp_all
  from a p k have a': "length ?es = 3"
      "item_proxy (?es ! 0) = Some (?ps ! (0 mod length ?ps))"
      "item_proxy (?es ! 1) = Some (?ps ! (1 mod length ?ps))"
      "item_proxy (?es ! 2) = Some (?ps ! (2 mod length ?ps))"
      "privateKey (?es ! 2) = ?ks ! 2"
    by simp_all
  from b k have b': "length ?en = 3" "item_proxy (?en ! 0) = None" "item_proxy (?en ! 2) = None"
    by simp_all
  have m: "(2::nat) mod Suc (Suc 0) = 0"
    by (simp add: numeral_2_eq_2)
  from a' b' show ?thesis
    by (simp add: example_keys_parsed example_proxies_parsed m)
qed

section \<open>The session file\<close>

text \<open>
  Claim C9, as stated, fails: the file name is built from the address as the
  constructor receives it, and the address that the identity resolver returns for
  the secret 1 has capital letters. The session file of its agent is not the file
  named after the agent's lowercase wallet identity.
\<close>

theorem session_file_stem_counterexample:
  "wallet fresh_bot = ''0x7e5f4552091a69125d5dfcb7b8c2659029395bdf'' \<and>
   sessionFile fresh_bot = ''/app/session/0x7E5F4552091A69125d5DfCb7b8C2659029395Bdf.json'' \<and>
   sessionFile fresh_bot \<noteq> ''/app/session/'' @ wallet fresh_bot @ ''.json''"
  by (simp add: fresh_bot_simps)

text \<open>
  Claim C9, amended. The session file of an agent is
  \<^verbatim>\<open><root>/session/<address>.json\<close>, where \<^verbatim>\<open><address>\<close> is the address as the
  constructor received it, not lowercased; this is the file \<^verbatim>\<open>loadSession\<close>
  reads and \<^verbatim>\<open>saveSession\<close> writes. The wallet identity sent to the service is
  the lowercase form of the address, so the stem of the file name is that identity
  exactly when the address has no capital letter.
\<close>

theorem session_file_named_from_address:
  "sessionFile (KaleidoMiningBot rootDir w i p) = rootDir @ ''/session/'' @ w @ ''.json'' \<and>
   wallet (KaleidoMiningBot rootDir w i p) = toLowerCase w \<and>
   (sessionFile (KaleidoMiningBot rootDir w i p)
      = rootDir @ ''/session/'' @ wallet (KaleidoMiningBot rootDir w i p) @ ''.json''
    \<longleftrightarrow> toLowerCase w = w) \<and>
   fst (loadSession files (KaleidoMiningBot rootDir w i p))
     = (\<exists>s. files (rootDir @ ''/session/'' @ w @ ''.json'') = Some (Doc s)) \<and>
   map fst (writes (snd (saveSession ok files (KaleidoMiningBot rootDir w i p))))
     = [rootDir @ ''/session/'' @ w @ ''.json'']"
  by (auto simp: KaleidoMiningBot_def path_join_def loadSession_def saveSession_def Let_def
        split: option.splits file_content.splits)

section \<open>Shutdown: proofs\<close>

lemma updateBalance_bot_files:
  "fst (updateBalance now post ok files b) = fst (updateBalance now post ok files' b)"
  by (simp add: updateBalance_def saveSession_def Let_def
        split: prod.splits sum.splits option.splits)

lemma updateBalance_trace_files:
  "snd (snd (updateBalance now post ok files b)) = snd (snd (updateBalance now post ok files' b))"
  by (simp add: updateBalance_def saveSession_def Let_def
        split: prod.splits sum.splits option.splits)

lemma stop_promise:
  "fst (stop now post ok ok' files b) =
     (case currentEarnings
             (fst (updateBalance now post ok files
                     (b\<lparr> miningState := (miningState b)\<lparr> isActive := False \<rparr> \<rparr>))) of
        None \<Rightarrow> Rejected TypeError
      | Some e \<Rightarrow> Fulfilled (total e))"
  by (simp add: stop_def Let_def split: prod.splits)

lemma stop_trace:
  "snd (snd (snd (stop now post ok ok' files b))) =
     snd (snd (updateBalance now post ok files
                 (b\<lparr> miningState := (miningState b)\<lparr> isActive := False \<rparr> \<rparr>)))
     @ snd (saveSession ok' files
              (fst (updateBalance now post ok files
                      (b\<lparr> miningState := (miningState b)\<lparr> isActive := False \<rparr> \<rparr>))))"
  by (simp add: stop_def saveSession_def Let_def split: prod.splits)

lemma stop_promise_files:
  "fst (stop now post ok ok' files b) = fst (stop now post ok ok' files' b)"
  unfolding stop_promise
  by (simp add: updateBalance_bot_files[of now post ok files _ files'])

lemma updateBalance_keeps_earnings_object:
  "currentEarnings b = Some e \<Longrightarrow>
   \<exists>e'. currentEarnings (fst (updateBalance now post ok files b)) = Some e'"
  by (simp add: updateBalance_def calculateSessionEarnings_def saveSession_def Let_def
        split: prod.splits sum.splits option.splits)

lemma stop_fulfilled:
  "currentEarnings b = Some e \<Longrightarrow> \<exists>x. fst (stop now post ok ok' files b) = Fulfilled x"
proof -
  assume "currentEarnings b = Some e"
  then have "currentEarnings (b\<lparr> miningState := (miningState b)\<lparr> isActive := False \<rparr> \<rparr>) = Some e"
    by simp
  from updateBalance_keeps_earnings_object[OF this, of now post ok files]
  show ?thesis
    unfolding stop_promise by auto
qed

lemma stop_all_append:
  "stop_all env i files (xs @ ys) =
     (case stop_all env i files xs of
        (ps1, bs1, files1, tr1) \<Rightarrow>
          (case stop_all env (i + length xs) files1 ys of
             (ps2, bs2, files2, tr2) \<Rightarrow> (ps1 @ ps2, bs1 @ bs2, files2, tr1 @ tr2)))"
proof (induction xs arbitrary: i files)
  case Nil
  show ?case by (simp split: prod.splits)
next
  case (Cons x xs)
  show ?case
    by (simp add: Cons.IH Let_def split: prod.splits)
qed

lemma stop_all_lengths:
  "stop_all env i files bs = (ps, bs', files', tr) \<Longrightarrow>
   length ps = length bs \<and> length bs' = length bs"
proof (induction bs arbitrary: i files ps bs' files' tr)
  case Nil
  then show ?case by simp
next
  case (Cons b bs)
  then show ?case
    by (fastforce simp: Let_def split: prod.splits)
qed

lemma promise_all_fulfilled:
  "promise_all ps = Fulfilled vs \<Longrightarrow> ps = map Fulfilled vs"
proof (induction ps arbitrary: vs rule: promise_all.induct)
  case 1
  then show ?case by simp
next
  case (2 e ps)
  then show ?case by simp
next
  case (3 v ps)
  then show ?case by (auto split: promise.splits)
qed

lemma foldl_plus_sum_list: "foldl (\<lambda>sum paid. sum + paid) (a :: num) vs = a + sum_list vs"
  by (induction vs arbitrary: a) simp_all

lemma initialize_failed:
  assumes "exhausts get 3 \<or> (\<exists>r. answers get 3 r \<and> \<not> isRegistered r)"
  shows "fst (initialize now now' get cs files b) =
           b\<lparr> miningState := (miningState b)\<lparr> isActive := False \<rparr> \<rparr>"
  using assms
proof
  assume "exhausts get 3"
  then have "retryRequest (CheckRegistration (wallet b)) get 3 =
      (Inl (projl (get (3 - 1))), backoff_trace (CheckRegistration (wallet b)) (3 - 1)
                                    @ [Invoke (CheckRegistration (wallet b))])"
    by (intro retryRequest_exhausted) simp_all
  then show ?thesis
    by (simp add: initialize_def initialize_session_def)
next
  assume "\<exists>r. answers get 3 r \<and> \<not> isRegistered r"
  then obtain r j where j: "j < 3" "exhausts get j" "get j = Inr r" and r: "\<not> isRegistered r"
    by (auto simp: answers_iff)
  from j have "retryRequest (CheckRegistration (wallet b)) get 3 =
      (Inr (Some r), backoff_trace (CheckRegistration (wallet b)) j
                       @ [Invoke (CheckRegistration (wallet b))])"
    by (intro retryRequest_answered)
  with r show ?thesis
    by (simp add: initialize_def initialize_session_def)
qed

lemma constructed_inactive:
  "(KaleidoMiningBot rootDir w idx px)
      \<lparr> miningState := (miningState (KaleidoMiningBot rootDir w idx px))\<lparr> isActive := False \<rparr> \<rparr>
   = KaleidoMiningBot rootDir w idx px"
  by (simp add: KaleidoMiningBot_def)

lemma example_key_parsed:
  "parse_lines ''0000000000000000000000000000000000000000000000000000000000000001'' =
     [''0000000000000000000000000000000000000000000000000000000000000001'']"
  by code_simp

lemma started_bots: "bots started = [fresh_bot]"
  by (simp add: started_def start_def MiningCoordinator_def loadPrivateKeysAndProxies_def
        example_key_parsed assign_proxy_def enumerate_eq_zip
        getWalletFromPrivateKey_def example_address_of_def fresh_bot_def)

lemma failed_bot_eq: "failed_bot = fresh_bot"
proof -
  have "answers (answer_at_once unregistered) 3 unregistered \<and> \<not> isRegistered unregistered"
    by (simp add: answers_at_once unregistered_def)
  then have "failed_bot =
      fresh_bot\<lparr> miningState := (miningState fresh_bot)\<lparr> isActive := False \<rparr> \<rparr>"
    unfolding failed_bot_def by (intro initialize_failed) blast
  then show ?thesis
    by (simp add: fresh_bot_def constructed_inactive)
qed

lemma stop_failed_bot_answered:
  "stop 90000 (answer_at_once \<lparr> success = True, balance = 7 \<rparr>) True True Map.empty fresh_bot =
     (Fulfilled 7,
      fresh_bot\<lparr> miningState := (miningState fresh_bot)\<lparr> lastUpdate := Some 90000 \<rparr>,
                 currentEarnings := Some \<lparr> total = 7 \<rparr> \<rparr>,
      [''/app/session/0x7E5F4552091A69125d5DfCb7b8C2659029395Bdf.json'' \<mapsto>
         Doc \<lparr> s_startTime = None, s_earnings = Some \<lparr> total = 7 \<rparr>, s_referralBonus = 0 \<rparr>],
      [Invoke (UpdateBalance \<lparr> p_wallet = ''0x7e5f4552091a69125d5dfcb7b8c2659029395bdf'',
                               p_session = 0.6795, p_type = ''mining_update'' \<rparr>),
       WriteFile ''/app/session/0x7E5F4552091A69125d5DfCb7b8C2659029395Bdf.json''
         \<lparr> s_startTime = None, s_earnings = Some \<lparr> total = 7 \<rparr>, s_referralBonus = 0 \<rparr>,
       WriteFile ''/app/session/0x7E5F4552091A69125d5DfCb7b8C2659029395Bdf.json''
         \<lparr> s_startTime = None, s_earnings = Some \<lparr> total = 7 \<rparr>, s_referralBonus = 0 \<rparr>])"
  by (simp add: stop_def updateBalance_def calculateSessionEarnings_def saveSession_def
        retryRequest_answer_at_once fresh_bot_simps to_number_def EARNINGS_RATE_def
        earnings_total_update Let_def)

lemma failed_agent_shutdown_run:
  "snd (snd (shutdownHandler answering_env Map.empty (started\<lparr> bots := [failed_bot] \<rparr>))) =
     ([Invoke (UpdateBalance \<lparr> p_wallet = ''0x7e5f4552091a69125d5dfcb7b8c2659029395bdf'',
                               p_session = 0.6795, p_type = ''mining_update'' \<rparr>),
       WriteFile ''/app/session/0x7E5F4552091A69125d5DfCb7b8C2659029395Bdf.json''
         \<lparr> s_startTime = None, s_earnings = Some \<lparr> total = 7 \<rparr>, s_referralBonus = 0 \<rparr>,
       WriteFile ''/app/session/0x7E5F4552091A69125d5DfCb7b8C2659029395Bdf.json''
         \<lparr> s_startTime = None, s_earnings = Some \<lparr> total = 7 \<rparr>, s_referralBonus = 0 \<rparr>],
      Exit0 1 7)"
proof -
  have s: "isShuttingDown started = False"
    by (simp add: started_def start_def MiningCoordinator_def Let_def)
  show ?thesis
    by (simp add: failed_bot_eq shutdownHandler_def s answering_env_def
          stop_failed_bot_answered)
qed

text \<open>
  Claim C4, as stated, fails. The agent of the example is on the coordinator's list
  from its construction and stays there when its registration check fails. At
  shutdown its \<^verbatim>\<open>stop\<close> is called: the final update is sent for it and its session
  is written, the summary counts it as a wallet, and the total is the balance the
  service returned for it.
\<close>

theorem failed_agent_is_stopped_counterexample:
  "bots started = [fresh_bot] \<and>
   failed_bot = fst (initialize 7000 7001 (answer_at_once unregistered) [] Map.empty fresh_bot) \<and>
   \<not> isActive (miningState failed_bot) \<and>
   snd (snd (shutdownHandler answering_env Map.empty (started\<lparr> bots := [failed_bot] \<rparr>))) =
     ([Invoke (UpdateBalance \<lparr> p_wallet = ''0x7e5f4552091a69125d5dfcb7b8c2659029395bdf'',
                               p_session = 0.6795, p_type = ''mining_update'' \<rparr>),
       WriteFile ''/app/session/0x7E5F4552091A69125d5DfCb7b8C2659029395Bdf.json''
         \<lparr> s_startTime = None, s_earnings = Some \<lparr> total = 7 \<rparr>, s_referralBonus = 0 \<rparr>,
       WriteFile ''/app/session/0x7E5F4552091A69125d5DfCb7b8C2659029395Bdf.json''
         \<lparr> s_startTime = None, s_earnings = Some \<lparr> total = 7 \<rparr>, s_referralBonus = 0 \<rparr>],
      Exit0 1 7)"
proof -
  have 1: "failed_bot =
      fst (initialize 7000 7001 (answer_at_once unregistered) [] Map.empty fresh_bot)"
    by (simp add: failed_bot_def)
  have 2: "\<not> isActive (miningState failed_bot)"
    by (simp add: failed_bot_eq fresh_bot_simps)
  note 3 = failed_agent_shutdown_run
  from started_bots 1 2 3 show ?thesis by blast
qed

lemma stop_all_at:
  assumes "env (i + length pre) = (t, upd, ok, ok')"
  shows "\<exists>fl ps1 ps2 tr1 tr2.
           fst (stop_all env i files (pre @ b # suf)) = ps1 @ fst (stop t upd ok ok' fl b) # ps2 \<and>
           length ps1 = length pre \<and> length ps2 = length suf \<and>
           snd (snd (snd (stop_all env i files (pre @ b # suf)))) =
             tr1 @ snd (snd (snd (stop t upd ok ok' fl b))) @ tr2"
proof -
  obtain ps1 bs1 fl tr1 where 1: "stop_all env i files pre = (ps1, bs1, fl, tr1)"
    by (cases "stop_all env i files pre") auto
  obtain p b' fl' trb where 2: "stop t upd ok ok' fl b = (p, b', fl', trb)"
    by (cases "stop t upd ok ok' fl b") auto
  obtain ps2 bs2 fl2 tr2 where
    3: "stop_all env (Suc (i + length pre)) fl' suf = (ps2, bs2, fl2, tr2)"
    by (cases "stop_all env (Suc (i + length pre)) fl' suf") auto
  have 4: "stop_all env i files (pre @ b # suf) =
          (ps1 @ p # ps2, bs1 @ b' # bs2, fl2, tr1 @ trb @ tr2)"
    using assms 1 2 3 by (simp add: stop_all_append)
  have 5: "length ps1 = length pre" using stop_all_lengths[OF 1] by simp
  have 6: "length ps2 = length suf" using stop_all_lengths[OF 3] by simp
  show ?thesis
    by (intro exI[of _ fl] exI[of _ ps1] exI[of _ ps2] exI[of _ tr1] exI[of _ tr2])
       (simp add: 2 4 5 6)
qed

lemma stop_first_event:
  "\<exists>tl. snd (snd (snd (stop now post ok ok' files b))) =
     Invoke (UpdateBalance
               \<lparr> p_wallet = wallet b,
                 p_session = fst (calculateSessionEarnings now b),
                 p_type = ''mining_update'' \<rparr>) # tl"
proof -
  let ?b0 = "b\<lparr> miningState := (miningState b)\<lparr> isActive := False \<rparr> \<rparr>"
  from updateBalance_first_event[of now post ok files ?b0]
  obtain tl where "snd (snd (updateBalance now post ok files ?b0)) =
     Invoke (UpdateBalance
               \<lparr> p_wallet = wallet ?b0,
                 p_session = fst (calculateSessionEarnings now ?b0),
                 p_type = ''mining_update'' \<rparr>) # tl"
    by blast
  moreover have "fst (calculateSessionEarnings now ?b0) = fst (calculateSessionEarnings now b)"
    by (simp add: calculateSessionEarnings_def Let_def split: option.splits)
  ultimately show ?thesis
    unfolding stop_trace by simp
qed

text \<open>
  When no \<^verbatim>\<open>stop\<close> is rejected, the handler stores the sum of the values in
  \<^verbatim>\<open>totalPaid\<close>, prints it with the number of agents and exits with status 0.
\<close>

lemma shutdown_total_is_sum:
  assumes "\<not> isShuttingDown c"
      and "fst (stop_all env 0 files (bots c)) = map Fulfilled vs"
  shows "snd (snd (snd (shutdownHandler env files c))) = Exit0 (length (bots c)) (sum_list vs) \<and>
         totalPaid (fst (shutdownHandler env files c)) = sum_list vs"
proof -
  obtain ps bs' files' tr where sa: "stop_all env 0 files (bots c) = (ps, bs', files', tr)"
    by (cases "stop_all env 0 files (bots c)") auto
  have pa: "promise_all (map Fulfilled vs) = Fulfilled vs"
    by (induction vs) simp_all
  from sa assms(2) have ps: "ps = map Fulfilled vs" by simp
  from stop_all_lengths[OF sa] have "length bs' = length (bots c)" by simp
  with assms(1) sa ps pa show ?thesis
    by (simp add: shutdownHandler_def Let_def foldl_plus_sum_list)
qed

lemma stop_all_promises:
  "fst (stop_all env i files bs) =
     map (\<lambda>(k, b). case env k of (now, post, ok, ok') \<Rightarrow> fst (stop now post ok ok' Map.empty b))
       (enumerate i bs)"
proof (induction bs arbitrary: i files)
  case Nil
  show ?case by simp
next
  case (Cons b bs)
  obtain now post ok ok' where e: "env i = (now, post, ok, ok')"
    by (cases "env i") auto
  obtain p b' files1 tr1 where s: "stop now post ok ok' files b = (p, b', files1, tr1)"
    by (cases "stop now post ok ok' files b") auto
  have "p = fst (stop now post ok ok' Map.empty b)"
    using s stop_promise_files[of now post ok ok' files b Map.empty] by simp
  then show ?case
    using e s Cons.IH[of "Suc i" files1] by (auto simp: Let_def split: prod.splits)
qed

text \<open>
  When a \<^verbatim>\<open>stop\<close> is rejected, the handler ends in its outer \<^verbatim>\<open>catch\<close>: status 1,
  and \<^verbatim>\<open>totalPaid\<close> is not assigned.
\<close>

lemma shutdown_rejected:
  assumes "\<not> isShuttingDown c"
      and "promise_all (fst (stop_all env 0 files (bots c))) = Rejected e"
  shows "snd (snd (snd (shutdownHandler env files c))) = Exit1 \<and>
         totalPaid (fst (shutdownHandler env files c)) = totalPaid c"
proof -
  obtain ps bs' files' tr where sa: "stop_all env 0 files (bots c) = (ps, bs', files', tr)"
    by (cases "stop_all env 0 files (bots c)") auto
  with assms show ?thesis
    by (simp add: shutdownHandler_def Let_def)
qed

lemma shutdown_handler_run:
  assumes "\<not> isShuttingDown c"
      and "stop_all env 0 files (bots c) = (ps, bs', files', tr)"
  shows "shutdownHandler env files c =
      (case promise_all ps of
         Rejected e \<Rightarrow> (c\<lparr> isShuttingDown := True, bots := bs' \<rparr>, files', tr, Exit1)
       | Fulfilled paidValues \<Rightarrow>
           (c\<lparr> isShuttingDown := True, bots := bs',
                totalPaid := foldl (\<lambda>sum paid. sum + paid) 0 paidValues \<rparr>,
            files', tr, Exit0 (length bs') (foldl (\<lambda>sum paid. sum + paid) 0 paidValues)))"
  using assms by (simp add: shutdownHandler_def Let_def split: promise.splits)

text \<open>
  The summary of the handler: the wallet count is the length of the list, and the
  total is the sum of the values of the \<^verbatim>\<open>stop\<close> calls of all agents of the list,
  position by position, whatever state an agent is in.
\<close>

lemma shutdown_summary:
  assumes "\<not> isShuttingDown c"
      and "snd (snd (snd (shutdownHandler env files c))) = Exit0 n v"
  shows "n = length (bots c) \<and>
         (\<exists>vs. length vs = length (bots c) \<and> v = sum_list vs \<and>
               (\<forall>j<length (bots c).
                  (case env j of (a, p, w, w') \<Rightarrow> fst (stop a p w w' files (bots c ! j)))
                    = Fulfilled (vs ! j)))"
proof -
  obtain ps bs' files' tr where sa: "stop_all env 0 files (bots c) = (ps, bs', files', tr)"
    by (cases "stop_all env 0 files (bots c)") auto
  note handler = shutdown_handler_run[OF assms(1) sa]
  have len: "length bs' = length (bots c)" "length ps = length (bots c)"
    using stop_all_lengths[OF sa] by simp_all
  from assms(2) obtain vs where vs: "promise_all ps = Fulfilled vs"
    and n: "n = length bs'" and v: "v = foldl (\<lambda>sum paid. sum + paid) 0 vs"
    by (auto simp: handler split: promise.splits)
  from promise_all_fulfilled[OF vs] have pv: "ps = map Fulfilled vs" .
  then have lv: "length vs = length (bots c)" using len by simp
  have each: "(case env j of (a, p, w, w') \<Rightarrow> fst (stop a p w w' files (bots c ! j)))
                = Fulfilled (vs ! j)" if j: "j < length (bots c)" for j
  proof -
    obtain a p w w' where e: "env j = (a, p, w, w')"
      by (cases "env j") auto
    have "ps ! j = fst (stop a p w w' Map.empty (bots c ! j))"
      using stop_all_promises[of env 0 files "bots c"] sa j e
      by (simp add: nth_enumerate_eq)
    moreover have "ps ! j = Fulfilled (vs ! j)"
      using pv lv j by simp
    ultimately show ?thesis
      using e stop_promise_files[of a p w w' files "bots c ! j" Map.empty] by simp
  qed
  from n v lv len each show ?thesis
    by (auto simp: foldl_plus_sum_list)
qed

text \<open>The final update of every agent of the list is sent.\<close>

lemma shutdown_sends_final_update:
  assumes "\<not> isShuttingDown c" and "k < length (bots c)" and "env k = (t, upd, ok, ok')"
  shows "Invoke (UpdateBalance
                   \<lparr> p_wallet = wallet (bots c ! k),
                     p_session = fst (calculateSessionEarnings t (bots c ! k)),
                     p_type = ''mining_update'' \<rparr>)
           \<in> set (fst (snd (snd (shutdownHandler env files c))))"
proof -
  obtain ps bs' files' tr where sa: "stop_all env 0 files (bots c) = (ps, bs', files', tr)"
    by (cases "stop_all env 0 files (bots c)") auto
  have trace: "fst (snd (snd (shutdownHandler env files c))) = tr"
    by (simp add: shutdown_handler_run[OF assms(1) sa] split: promise.splits)
  let ?pre = "take k (bots c)" and ?suf = "drop (Suc k) (bots c)"
  have split: "bots c = ?pre @ bots c ! k # ?suf"
    using assms(2) by (simp add: id_take_nth_drop[symmetric])
  have lp: "length ?pre = k" using assms(2) by simp
  from stop_all_at[of env 0 ?pre t upd ok ok' files "bots c ! k" ?suf] assms(3) lp
  obtain fl tr1 tr2 where
    "snd (snd (snd (stop_all env 0 files (?pre @ bots c ! k # ?suf)))) =
       tr1 @ snd (snd (snd (stop t upd ok ok' fl (bots c ! k)))) @ tr2"
    by auto
  with split sa have tr: "tr = tr1 @ snd (snd (snd (stop t upd ok ok' fl (bots c ! k)))) @ tr2"
    by simp
  from stop_first_event[of t upd ok ok' fl "bots c ! k"]
  obtain tl where "snd (snd (snd (stop t upd ok ok' fl (bots c ! k)))) =
     Invoke (UpdateBalance
               \<lparr> p_wallet = wallet (bots c ! k),
                 p_session = fst (calculateSessionEarnings t (bots c ! k)),
                 p_type = ''mining_update'' \<rparr>) # tl"
    by blast
  then show ?thesis
    by (simp add: trace tr)
qed

lemma initialize_all_nth:
  "initialize_all ienv i files bs = (bs', files', tr) \<Longrightarrow>
   length bs' = length bs \<and>
   (\<forall>k<length bs. \<exists>fl. bs' ! k =
      (case ienv (i + k) of (now, now', get, cs) \<Rightarrow> fst (initialize now now' get cs fl (bs ! k))))"
proof (induction bs arbitrary: i files bs' files' tr)
  case Nil
  then show ?case by simp
next
  case (Cons b bs)
  obtain now now' get cs where e: "ienv i = (now, now', get, cs)"
    by (cases "ienv i") auto
  obtain b1 files1 tr1 where 1: "initialize now now' get cs files b = (b1, files1, tr1)"
    by (cases "initialize now now' get cs files b") auto
  obtain bs2 files2 tr2 where 2: "initialize_all ienv (Suc i) files1 bs = (bs2, files2, tr2)"
    by (cases "initialize_all ienv (Suc i) files1 bs") auto
  from Cons.prems e 1 2 have bs': "bs' = b1 # bs2" by simp
  from Cons.IH[OF 2] have ih: "length bs2 = length bs"
    "\<And>k. k < length bs \<Longrightarrow> \<exists>fl. bs2 ! k =
      (case ienv (Suc i + k) of (now, now', get, cs) \<Rightarrow>
         fst (initialize now now' get cs fl (bs ! k)))"
    by auto
  have "\<exists>fl. bs' ! k =
      (case ienv (i + k) of (now, now', get, cs) \<Rightarrow>
         fst (initialize now now' get cs fl ((b # bs) ! k)))" if "k < length (b # bs)" for k
  proof (cases k)
    case 0
    with e 1 bs' show ?thesis by (auto intro: exI[of _ files])
  next
    case (Suc m)
    with that ih(2)[of m] bs' show ?thesis by simp
  qed
  with ih(1) bs' show ?case by simp
qed

lemma start_bots_constructed:
  "b \<in> set (start_bots address_of rootDir i items) \<Longrightarrow>
   \<exists>w idx px. b = KaleidoMiningBot rootDir w idx px"
  by (induction items arbitrary: i) (auto split: option.splits)

lemma start_started:
  "start address_of rootDir pkFile proxyFile c0 = (c1, Started) \<Longrightarrow>
   isShuttingDown c1 = isShuttingDown c0 \<and>
   (\<exists>items. bots c1 = start_bots address_of rootDir 0 items)"
  by (auto simp: start_def Let_def split: if_splits)

text \<open>
  Claim C4, amended. \<^verbatim>\<open>start\<close> puts every agent it constructs on the
  coordinator's list, and the \<^verbatim>\<open>initialize\<close> calls leave the list as long as it
  was. An agent whose registration check failed (it is not registered, or the three
  attempts raised) is still at its position, inactive, and the shutdown treats it as
  every other agent of the list: its \<^verbatim>\<open>stop\<close> is called, which sends a final
  balance update for its wallet and is fulfilled with its total. When the handler
  reaches its summary, the printed wallet count is the length of the list, this
  agent included, and the printed total is the sum of the values of the \<^verbatim>\<open>stop\<close>
  calls of all agents of the list, the value of this agent's among them.
\<close>

theorem shutdown_stops_failed_agents_too:
  assumes "start address_of rootDir pkFile proxyFile c0 = (c1, Started)"
      and "\<not> isShuttingDown c0"
      and "initialize_all ienv 0 files0 (bots c1) = (bs, files, tr0)"
      and "k < length (bots c1)"
      and "ienv k = (now, now', get, cs)"
      and "exhausts get 3 \<or> (\<exists>r. answers get 3 r \<and> \<not> isRegistered r)"
      and "env k = (t, upd, ok, ok')"
  shows "length bs = length (bots c1) \<and>
         bs ! k = bots c1 ! k \<and>
         \<not> isActive (miningState (bs ! k)) \<and>
         Invoke (UpdateBalance
                   \<lparr> p_wallet = wallet (bs ! k),
                     p_session = DEFAULT_HASHRATE * (t / 1000) * EARNINGS_RATE,
                     p_type = ''mining_update'' \<rparr>)
           \<in> set (fst (snd (snd (shutdownHandler env files (c1\<lparr> bots := bs \<rparr>))))) \<and>
         (\<exists>x. fst (stop t upd ok ok' files (bs ! k)) = Fulfilled x) \<and>
         (\<forall>n v. snd (snd (snd (shutdownHandler env files (c1\<lparr> bots := bs \<rparr>)))) = Exit0 n v \<longrightarrow>
            n = length bs \<and>
            (\<exists>vs. length vs = length bs \<and> v = sum_list vs \<and>
                  (\<forall>j<length bs.
                     (case env j of (a, p, w, w') \<Rightarrow> fst (stop a p w w' files (bs ! j)))
                       = Fulfilled (vs ! j))))"
proof -
  from start_started[OF assms(1)] assms(2) obtain items where
    ns: "\<not> isShuttingDown c1" and items: "bots c1 = start_bots address_of rootDir 0 items"
    by auto
  from assms(4) items have "bots c1 ! k \<in> set (start_bots address_of rootDir 0 items)"
    by simp
  from start_bots_constructed[OF this] obtain w idx px where
    con: "bots c1 ! k = KaleidoMiningBot rootDir w idx px"
    by blast
  from initialize_all_nth[OF assms(3)] assms(4,5) obtain fl where
    len: "length bs = length (bots c1)" and
    bk: "bs ! k = fst (initialize now now' get cs fl (bots c1 ! k))"
    by force
  have same: "bs ! k = bots c1 ! k"
    using initialize_failed[OF assms(6), of now now' cs fl "bots c1 ! k"] bk
    by (simp add: con constructed_inactive)
  have fb: "bs ! k = KaleidoMiningBot rootDir w idx px"
    using same con by simp
  have inactive: "\<not> isActive (miningState (bs ! k))"
    by (simp add: fb KaleidoMiningBot_def)
  have ce: "currentEarnings (bs ! k) = Some \<lparr> total = 0 \<rparr>"
    by (simp add: fb KaleidoMiningBot_def)
  from stop_fulfilled[OF ce]
  have ful: "\<exists>x. fst (stop t upd ok ok' files (bs ! k)) = Fulfilled x" .
  let ?c = "c1\<lparr> bots := bs \<rparr>"
  have c: "\<not> isShuttingDown ?c" "bots ?c = bs" "k < length (bots ?c)"
    using ns len assms(4) by simp_all
  have delta: "fst (calculateSessionEarnings t (bs ! k))
                 = DEFAULT_HASHRATE * (t / 1000) * EARNINGS_RATE"
    by (simp add: fb KaleidoMiningBot_def calculateSessionEarnings_def to_number_def)
  from shutdown_sends_final_update[where env = env and files = files, OF c(1) c(3) assms(7)]
  have sent: "Invoke (UpdateBalance
                   \<lparr> p_wallet = wallet (bs ! k),
                     p_session = DEFAULT_HASHRATE * (t / 1000) * EARNINGS_RATE,
                     p_type = ''mining_update'' \<rparr>)
           \<in> set (fst (snd (snd (shutdownHandler env files ?c))))"
    by (simp add: delta)
  have summary: "\<forall>n v. snd (snd (snd (shutdownHandler env files ?c))) = Exit0 n v \<longrightarrow>
            n = length bs \<and>
            (\<exists>vs. length vs = length bs \<and> v = sum_list vs \<and>
                  (\<forall>j<length bs.
                     (case env j of (a, p, w, w') \<Rightarrow> fst (stop a p w w' files (bs ! j)))
                       = Fulfilled (vs ! j)))"
  proof (intro allI impI)
    fix n v
    assume "snd (snd (snd (shutdownHandler env files ?c))) = Exit0 n v"
    from shutdown_summary[OF c(1) this] show "n = length bs \<and>
            (\<exists>vs. length vs = length bs \<and> v = sum_list vs \<and>
                  (\<forall>j<length bs.
                     (case env j of (a, p, w, w') \<Rightarrow> fst (stop a p w w' files (bs ! j)))
                       = Fulfilled (vs ! j)))"
      unfolding c(2) .
  qed
  from len same inactive sent ful summary show ?thesis
    by blast
qed

lemma stop_fulfilled_with_balance:
  assumes "answers post 3 r" and "success r" and "currentEarnings b = Some e"
  shows "fst (stop now post ok ok' files b) = Fulfilled (balance r)"
proof -
  let ?b0 = "b\<lparr> miningState := (miningState b)\<lparr> isActive := False \<rparr> \<rparr>"
  have "currentEarnings ?b0 = Some e" using assms(3) by simp
  from updateBalance_succeeded[OF assms(1,2) this, of now ok files]
  have "currentEarnings (fst (updateBalance now post ok files ?b0))
          = Some \<lparr> total = balance r \<rparr>"
    by auto
  then show ?thesis
    unfolding stop_promise by simp
qed

lemma toLowerCase_second_example:
  "toLowerCase ''0x2B5AD5c4795c026514f8317c7a215E218DcCD6cF'' =
     ''0x2b5ad5c4795c026514f8317c7a215e218dccd6cf''"
  by code_simp

lemma two_keys_parsed:
  "parse_lines two_keys =
     [''0000000000000000000000000000000000000000000000000000000000000001'',
      ''0000000000000000000000000000000000000000000000000000000000000002'']"
  by code_simp

lemma started_two_run:
  "start example_address_of ''/app'' (Some two_keys) None MiningCoordinator
     = (started_two, Started)"
  "bots started_two = [fresh_bot, second_bot]"
  by (simp_all add: started_two_def start_def MiningCoordinator_def
        loadPrivateKeysAndProxies_def two_keys_parsed assign_proxy_def enumerate_eq_zip
        getWalletFromPrivateKey_def example_address_of_def fresh_bot_def second_bot_def
        upt_rec numeral_2_eq_2)

lemma initialized_two_run:
  "initialize_all second_unregistered 0 Map.empty (bots started_two) =
     ([fresh_bot\<lparr> referralBonus := 0.1, currentEarnings := Some \<lparr> total = 9 \<rparr>,
                  miningState := (miningState fresh_bot)
                     \<lparr> startTime := Some 7000, isActive := True, lastUpdate := Some 7001 \<rparr> \<rparr>,
       second_bot],
      Map.empty,
      [Invoke (CheckRegistration (wallet fresh_bot)),
       Invoke (CheckRegistration (wallet second_bot))])"
proof -
  have 1: "initialize 7000 7001 (answer_at_once registered) [] Map.empty fresh_bot =
      (fresh_bot\<lparr> referralBonus := 0.1, currentEarnings := Some \<lparr> total = 9 \<rparr>,
                  miningState := (miningState fresh_bot)
                     \<lparr> startTime := Some 7000, isActive := True, lastUpdate := Some 7001 \<rparr> \<rparr>,
       Map.empty, [Invoke (CheckRegistration (wallet fresh_bot))])"
    by (simp add: initialize_def initialize_session_def retryRequest_answer_at_once
          registered_def loadSession_def fresh_bot_simps or_zero_def Let_def)
  have 2: "initialize 7000 7001 (answer_at_once unregistered) [] Map.empty second_bot =
      (second_bot, Map.empty, [Invoke (CheckRegistration (wallet second_bot))])"
    by (simp add: initialize_def initialize_session_def retryRequest_answer_at_once
          unregistered_def second_bot_def constructed_inactive Let_def)
  show ?thesis
    by (simp add: started_two_run second_unregistered_def 1 2)
qed

theorem shutdown_stops_failed_agents_too_witness:
  "length initialized_two = 2 \<and>
   isActive (miningState (initialized_two ! 0)) \<and>
   \<not> isActive (miningState (initialized_two ! 1)) \<and>
   initialized_two ! 1 = bots started_two ! 1 \<and>
   Invoke (UpdateBalance
             \<lparr> p_wallet = ''0x2b5ad5c4795c026514f8317c7a215e218dccd6cf'',
               p_session = 0.6795, p_type = ''mining_update'' \<rparr>)
     \<in> set (fst (snd (snd (shutdownHandler two_env Map.empty
                                (started_two\<lparr> bots := initialized_two \<rparr>))))) \<and>
   snd (snd (snd (shutdownHandler two_env Map.empty (started_two\<lparr> bots := initialized_two \<rparr>))))
     = Exit0 2 (sum_list [5.2, 7])"
proof -
  have i2: "initialized_two =
     [fresh_bot\<lparr> referralBonus := 0.1, currentEarnings := Some \<lparr> total = 9 \<rparr>,
                  miningState := (miningState fresh_bot)
                     \<lparr> startTime := Some 7000, isActive := True, lastUpdate := Some 7001 \<rparr> \<rparr>,
       second_bot]"
    by (simp add: initialized_two_def initialized_two_run)
  have init: "initialize_all second_unregistered 0 Map.empty (bots started_two) =
      (initialized_two, Map.empty,
       [Invoke (CheckRegistration (wallet fresh_bot)),
        Invoke (CheckRegistration (wallet second_bot))])"
    by (simp add: i2 initialized_two_run)
  have c0: "\<not> isShuttingDown MiningCoordinator"
    by (simp add: MiningCoordinator_def)
  have k: "1 < length (bots started_two)"
    by (simp add: started_two_run)
  have ie: "second_unregistered 1 = (7000, 7001, answer_at_once unregistered, [])"
    by (simp add: second_unregistered_def)
  have reg: "exhausts (answer_at_once unregistered) 3 \<or>
             (\<exists>r. answers (answer_at_once unregistered) 3 r \<and> \<not> isRegistered r)"
    using answers_at_once[of unregistered] by (auto simp: unregistered_def)
  have env: "two_env 1 = (90000, answer_at_once \<lparr> success = True, balance = 7 \<rparr>, True, True)"
    by (simp add: two_env_def)
  note t = shutdown_stops_failed_agents_too
             [where env = two_env and ienv = second_unregistered and k = 1,
              OF started_two_run(1) c0 init k ie reg env]
  have wl: "wallet (initialized_two ! 1) = ''0x2b5ad5c4795c026514f8317c7a215e218dccd6cf''"
    by (simp add: i2 second_bot_def KaleidoMiningBot_def toLowerCase_second_example)
  have ns: "\<not> isShuttingDown (started_two\<lparr> bots := initialized_two \<rparr>)"
    using start_started[OF started_two_run(1)] c0 by simp
  have ps: "fst (stop_all two_env 0 Map.empty (bots (started_two\<lparr> bots := initialized_two \<rparr>)))
              = map Fulfilled [5.2, 7]"
  proof -
    have a: "fst (stop 90000 (answer_at_once \<lparr> success = True, balance = 5.2 \<rparr>) True True
                    Map.empty (initialized_two ! 0)) = Fulfilled 5.2"
      using stop_fulfilled_with_balance
              [of "answer_at_once \<lparr> success = True, balance = 5.2 \<rparr>"
                  "\<lparr> success = True, balance = 5.2 \<rparr>" "initialized_two ! 0" "\<lparr> total = 9 \<rparr>"]
      by (simp add: answers_at_once i2)
    have b: "fst (stop 90000 (answer_at_once \<lparr> success = True, balance = 7 \<rparr>) True True
                    Map.empty (initialized_two ! 1)) = Fulfilled 7"
      using stop_fulfilled_with_balance
              [of "answer_at_once \<lparr> success = True, balance = 7 \<rparr>"
                  "\<lparr> success = True, balance = 7 \<rparr>" "initialized_two ! 1" "\<lparr> total = 0 \<rparr>"]
      by (simp add: answers_at_once i2 second_bot_def KaleidoMiningBot_def)
    from a b show ?thesis
      by (subst stop_all_promises) (simp add: i2 two_env_def)
  qed
  from shutdown_total_is_sum[OF ns ps]
  have r: "snd (snd (snd (shutdownHandler two_env Map.empty
                            (started_two\<lparr> bots := initialized_two \<rparr>))))
             = Exit0 2 (sum_list [5.2, 7])"
    by (simp add: i2)
  have act: "isActive (miningState (initialized_two ! 0))"
    by (simp add: i2)
  from t wl r act show ?thesis
    by (simp add: i2 DEFAULT_HASHRATE_def EARNINGS_RATE_def)
qed

text \<open>
  Claim C5 at an input where one \<^verbatim>\<open>stop\<close> raises. The first agent's \<^verbatim>\<open>stop\<close> is
  fulfilled with 5; the second agent has no earnings object, so its \<^verbatim>\<open>stop\<close>
  raises \<^verbatim>\<open>TypeError\<close> in its \<^verbatim>\<open>try\<close> and in its \<^verbatim>\<open>catch\<close>, and its promise is
  rejected. The handler does not substitute 0: it exits with status 1, prints no
  summary and leaves \<^verbatim>\<open>totalPaid\<close> at 0, where the claim gives a total of 5.
\<close>

theorem rejected_stop_aborts_shutdown:
  "currentEarnings broken_bot = None \<and>
   isActive (miningState broken_bot) \<and>
   fst (stop 90000 unreachable True True broken_files resumed_bot) = Fulfilled 5 \<and>
   fst (stop 90000 unreachable True True broken_files broken_bot) = Rejected TypeError \<and>
   snd (snd (snd (shutdownHandler silent_env broken_files
                    (MiningCoordinator\<lparr> bots := [resumed_bot, broken_bot], isRunning := True \<rparr>))))
     = Exit1 \<and>
   totalPaid (fst (shutdownHandler silent_env broken_files
                    (MiningCoordinator\<lparr> bots := [resumed_bot, broken_bot], isRunning := True \<rparr>)))
     = 0"
proof -
  have u1: "currentEarnings (fst (updateBalance 90000 unreachable True files
              (resumed_bot\<lparr> miningState := (miningState resumed_bot)\<lparr> isActive := False \<rparr> \<rparr>)))
            = Some \<lparr> total = 5 \<rparr>" for files
    by (simp add: updateBalance_def calculateSessionEarnings_def retryRequest_unreachable
          resumed_bot_simps Let_def)
  have u2: "currentEarnings (fst (updateBalance 90000 unreachable True files
              (broken_bot\<lparr> miningState := (miningState broken_bot)\<lparr> isActive := False \<rparr> \<rparr>)))
            = None" for files
    by (simp add: updateBalance_def calculateSessionEarnings_def retryRequest_unreachable
          broken_bot_simps Let_def)
  have s1: "fst (stop 90000 unreachable True True files resumed_bot) = Fulfilled 5" for files
    by (simp add: stop_promise u1)
  have s2: "fst (stop 90000 unreachable True True files broken_bot) = Rejected TypeError" for files
    by (simp add: stop_promise u2)
  have ps: "fst (stop_all silent_env 0 broken_files [resumed_bot, broken_bot])
              = [Fulfilled 5, Rejected TypeError]"
    by (subst stop_all_promises) (simp add: silent_env_def s1 s2)
  let ?c = "MiningCoordinator\<lparr> bots := [resumed_bot, broken_bot], isRunning := True \<rparr>"
  have c: "\<not> isShuttingDown ?c" "bots ?c = [resumed_bot, broken_bot]" "totalPaid ?c = 0"
    by (simp_all add: MiningCoordinator_def)
  have "promise_all (fst (stop_all silent_env 0 broken_files (bots ?c))) = Rejected TypeError"
    by (simp only: c ps) simp
  from shutdown_rejected[OF c(1) this] c(3)
  have r: "snd (snd (snd (shutdownHandler silent_env broken_files ?c))) = Exit1"
    and p: "totalPaid (fst (shutdownHandler silent_env broken_files ?c)) = 0"
    by simp_all
  from broken_bot_simps s1 s2 r p show ?thesis by blast
qed

section \<open>The earnings object\<close>

text \<open>
  The agent that \<^verbatim>\<open>initialize\<close> activates has an earnings object, unless the stored
  document it restored has none; balance updates keep the object
  (\<open>updateBalance_keeps_earnings_object\<close>). So the agents without one are those
  started on a session document that lacks the \<^verbatim>\<open>earnings\<close> field.
\<close>

lemma initialize_session_earnings_object:
  assumes "initialize_session now now' get files b = (Inr b', tr)"
      and "\<And>s. files (sessionFile b) = Some (Doc s) \<Longrightarrow> s_earnings s \<noteq> None"
  shows "currentEarnings b' \<noteq> None"
  using assms
  by (auto simp: initialize_session_def loadSession_def Let_def
        split: prod.splits sum.splits option.splits file_content.splits if_splits)

end
